theory Spec2Isabelle
  imports Main "HOL-Library.Word"
begin

section \<open>The environment of parsecache: time, files, outcomes\<close>

text \<open>
  The package is written against Go's \<^verbatim>\<open>time\<close>, \<^verbatim>\<open>io/fs\<close> and \<^verbatim>\<open>path/filepath\<close>
  packages. Their values are modelled as follows.

  A \<^verbatim>\<open>time.Time\<close> is a struct of three fields, \<^verbatim>\<open>wall\<close>, \<^verbatim>\<open>ext\<close> and \<^verbatim>\<open>loc\<close>. The first two
  encode the wall-clock instant and, when the value comes from \<^verbatim>\<open>time.Now()\<close>, a reading
  of the monotonic clock; \<^verbatim>\<open>loc\<close> is a pointer to a Location. The record below holds what
  they encode: \<open>instant\<close>, the wall clock in nanoseconds from the zero Time; \<open>mono\<close>, the
  monotonic reading in nanoseconds, if there is one; and \<open>loc\<close>, the pointer (0 is
  \<^verbatim>\<open>nil\<close>, that is UTC). Two Times are \<^verbatim>\<open>==\<close> when all three fields agree, which is
  equality of the records: the same instant in another Location, or with and without a
  monotonic reading, is not \<^verbatim>\<open>==\<close>. \<^verbatim>\<open>IsZero\<close> looks at the instant only.

  A \<^verbatim>\<open>time.Duration\<close> is an \<^verbatim>\<open>int64\<close>: a 64-bit word read by \<open>sint\<close>. \<^verbatim>\<open>t.Sub(u)\<close> is the
  difference of the monotonic readings when both Times have one, and of the instants
  otherwise, saturated at the least and the greatest Duration, as the library documents.
\<close>

type_synonym Location = nat

record Time =
  instant :: int
  mono :: "int option"
  loc :: Location

type_synonym Duration = "64 word"

text \<open>The zero value \<^verbatim>\<open>time.Time{}\<close>.\<close>

definition Time_zero :: Time where
  "Time_zero = \<lparr>instant = 0, mono = None, loc = 0\<rparr>"

definition Time_IsZero :: "Time \<Rightarrow> bool" where
  "Time_IsZero t = (instant t = 0)"

definition minDuration :: int where
  "minDuration = - (2 ^ 63)"

definition maxDuration :: int where
  "maxDuration = 2 ^ 63 - 1"

definition Duration_saturate :: "int \<Rightarrow> Duration" where
  "Duration_saturate d =
     (if d < minDuration then word_of_int minDuration
      else if maxDuration < d then word_of_int maxDuration
      else word_of_int d)"

definition Time_Sub :: "Time \<Rightarrow> Time \<Rightarrow> Duration" where
  "Time_Sub t u =
     (case (mono t, mono u) of
        (Some a, Some b) \<Rightarrow> Duration_saturate (a - b)
      | _ \<Rightarrow> Duration_saturate (instant t - instant u))"

text \<open>\<^verbatim>\<open>a < b\<close> on two Durations compares them as signed integers.\<close>

definition Duration_less :: "Duration \<Rightarrow> Duration \<Rightarrow> bool" where
  "Duration_less a b = (sint a < sint b)"

text \<open>
  An \<^verbatim>\<open>fs.FileInfo\<close> is read for its size and modification time only. An open \<^verbatim>\<open>fs.File\<close>
  is what the calls made on it answer: \<^verbatim>\<open>Stat\<close> gives an error or a FileInfo; \<open>ReadDir\<close> is
  \<open>None\<close> when the handle does not implement \<^verbatim>\<open>fs.ReadDirFile\<close> and otherwise what
  \<^verbatim>\<open>ReadDir(0)\<close> gives; \<open>Data\<close> is the bytes a parser can read. Errors are values of an
  arbitrary type \<open>'e\<close>, directory entries of an arbitrary type \<open>'d\<close>.
\<close>

record FileInfo =
  Size :: "64 word"
  ModTime :: Time

record ('e, 'd) File =
  Stat :: "'e + FileInfo"
  ReadDir :: "('e + 'd list) option"
  Data :: string

text \<open>
  A call either returns a value with an error (\<open>None\<close> is \<^verbatim>\<open>nil\<close>) or panics. Each call
  also yields the list of filesystem operations it made, in order.
\<close>

datatype ('v, 'e) outcome = Return 'v "'e option" | Panic string

datatype fs_op = OpOpen | OpStat | OpReadDir | OpParse | OpClose

section \<open>Cache entries and the freshness algorithm\<close>

record 'd CachedDir =
  lastLoadTime :: Time
  lastSize :: "64 word"
  lastModTime :: Time
  entries :: "'d list"

record 'a CachedFile =
  lastLoadTime :: Time
  lastSize :: "64 word"
  lastModTime :: Time
  content :: 'a

text \<open>The locks of the concurrent wrappers are left out: calls are modelled one at a time.\<close>

record 'd ConcurrentCachedDir =
  cachedDir :: "'d CachedDir"

record 'a ConcurrentCachedFile =
  cachedFile :: "'a CachedFile"

text \<open>The zero values \<^verbatim>\<open>&CachedDir{}\<close> and \<^verbatim>\<open>&CachedFile[T]{}\<close>; \<open>z\<close> is the zero value of T.\<close>

definition CachedDir_zero :: "'d CachedDir" where
  "CachedDir_zero =
     \<lparr>CachedDir.lastLoadTime = Time_zero, lastSize = 0, lastModTime = Time_zero,
      entries = []\<rparr>"

definition CachedFile_zero :: "'a \<Rightarrow> 'a CachedFile" where
  "CachedFile_zero z =
     \<lparr>CachedFile.lastLoadTime = Time_zero, lastSize = 0, lastModTime = Time_zero,
      content = z\<rparr>"

definition CachedDir_Cached :: "'d CachedDir \<Rightarrow> 'd list \<times> Time \<times> bool" where
  "CachedDir_Cached f =
     (entries f, CachedDir.lastLoadTime f, \<not> Time_IsZero (CachedDir.lastLoadTime f))"

definition CachedFile_Cached :: "'a CachedFile \<Rightarrow> 'a \<times> Time \<times> bool" where
  "CachedFile_Cached f =
     (content f, CachedFile.lastLoadTime f, \<not> Time_IsZero (CachedFile.lastLoadTime f))"

text \<open>
  \<^verbatim>\<open>CachedDir.Get\<close>. \<open>now\<close> is what \<^verbatim>\<open>time.Now()\<close> returns in this call. The deferred
  \<^verbatim>\<open>file.Close()\<close> runs on every exit after a successful open, the panic included.
\<close>

definition CachedDir_Get ::
  "'d CachedDir \<Rightarrow> Time \<Rightarrow> (unit \<Rightarrow> 'e + ('e, 'd) File) \<Rightarrow> Duration
     \<Rightarrow> ('d list, 'e) outcome \<times> 'd CachedDir \<times> fs_op list" where
  "CachedDir_Get f now open maxAge =
     (let loaded = \<not> Time_IsZero (CachedDir.lastLoadTime f);
          loadTime = now
      in if loaded \<and> Duration_less (Time_Sub loadTime (CachedDir.lastLoadTime f)) maxAge
         then (Return (entries f) None, f, [])
         else
           case open () of
             Inl err \<Rightarrow> (Return (entries f) (Some err), f, [OpOpen])
           | Inr file \<Rightarrow>
               (case Stat file of
                  Inl err \<Rightarrow> (Return (entries f) (Some err), f, [OpOpen, OpStat, OpClose])
                | Inr stats \<Rightarrow>
                    (let size = Size stats; modTime = ModTime stats
                     in if loaded \<and> size = CachedDir.lastSize f
                             \<and> modTime = CachedDir.lastModTime f
                        then (Return (entries f) None,
                              f\<lparr>CachedDir.lastLoadTime := loadTime\<rparr>,
                              [OpOpen, OpStat, OpClose])
                        else
                          case ReadDir file of
                            None \<Rightarrow>
                              (Panic ''directory doesn't implement ReadDirFile'', f,
                               [OpOpen, OpStat, OpClose])
                          | Some (Inl err) \<Rightarrow>
                              (Return (entries f) (Some err), f,
                               [OpOpen, OpStat, OpReadDir, OpClose])
                          | Some (Inr es) \<Rightarrow>
                              (let f' = f\<lparr>CachedDir.lastLoadTime := loadTime,
                                          entries := es,
                                          CachedDir.lastSize := size,
                                          CachedDir.lastModTime := modTime\<rparr>
                               in (Return (entries f') None, f',
                                   [OpOpen, OpStat, OpReadDir, OpClose])))))"

text \<open>
  \<^verbatim>\<open>CachedFile.Get\<close>. Its first test reads \<^verbatim>\<open>loadTime.Sub(f.lastLoadTime) < maxAge\<close>,
  without the \<^verbatim>\<open>loaded &&\<close> of the directory version.
\<close>

definition CachedFile_Get ::
  "'a CachedFile \<Rightarrow> Time \<Rightarrow> (unit \<Rightarrow> 'e + ('e, 'd) File) \<Rightarrow> (('e, 'd) File \<Rightarrow> 'e + 'a)
     \<Rightarrow> Duration \<Rightarrow> ('a, 'e) outcome \<times> 'a CachedFile \<times> fs_op list" where
  "CachedFile_Get f now open parse maxAge =
     (let loaded = \<not> Time_IsZero (CachedFile.lastLoadTime f);
          loadTime = now
      in if Duration_less (Time_Sub loadTime (CachedFile.lastLoadTime f)) maxAge
         then (Return (content f) None, f, [])
         else
           case open () of
             Inl err \<Rightarrow> (Return (content f) (Some err), f, [OpOpen])
           | Inr file \<Rightarrow>
               (case Stat file of
                  Inl err \<Rightarrow> (Return (content f) (Some err), f, [OpOpen, OpStat, OpClose])
                | Inr stats \<Rightarrow>
                    (let size = Size stats; modTime = ModTime stats
                     in if loaded \<and> size = CachedFile.lastSize f
                             \<and> modTime = CachedFile.lastModTime f
                        then (Return (content f) None,
                              f\<lparr>CachedFile.lastLoadTime := loadTime\<rparr>,
                              [OpOpen, OpStat, OpClose])
                        else
                          case parse file of
                            Inl err \<Rightarrow>
                              (Return (content f) (Some err), f,
                               [OpOpen, OpStat, OpParse, OpClose])
                          | Inr c \<Rightarrow>
                              (let f' = f\<lparr>CachedFile.lastLoadTime := loadTime,
                                          content := c,
                                          CachedFile.lastSize := size,
                                          CachedFile.lastModTime := modTime\<rparr>
                               in (Return (content f') None, f',
                                   [OpOpen, OpStat, OpParse, OpClose])))))"

text \<open>
  The wrappers \<^verbatim>\<open>ConcurrentCachedDir.Get\<close> and \<^verbatim>\<open>ConcurrentCachedFile.Get\<close>: a first
  test on the snapshot from \<^verbatim>\<open>Cached()\<close>, then the whole of the wrapped \<^verbatim>\<open>Get\<close>.
  \<open>now_since\<close> is the clock read by \<^verbatim>\<open>time.Since\<close>, \<open>now_get\<close> the one read by the inner call.
\<close>

definition ConcurrentCachedDir_Get ::
  "'d ConcurrentCachedDir \<Rightarrow> Time \<Rightarrow> Time \<Rightarrow> (unit \<Rightarrow> 'e + ('e, 'd) File) \<Rightarrow> Duration
     \<Rightarrow> ('d list, 'e) outcome \<times> 'd ConcurrentCachedDir \<times> fs_op list" where
  "ConcurrentCachedDir_Get f now_since now_get open maxAge =
     (case CachedDir_Cached (cachedDir f) of
        (es, cachedAt, ok) \<Rightarrow>
          if ok \<and> Duration_less (Time_Sub now_since cachedAt) maxAge
          then (Return es None, f, [])
          else
            case CachedDir_Get (cachedDir f) now_get open maxAge of
              (r, d, ops) \<Rightarrow> (r, f\<lparr>cachedDir := d\<rparr>, ops))"

definition ConcurrentCachedFile_Get ::
  "'a ConcurrentCachedFile \<Rightarrow> Time \<Rightarrow> Time \<Rightarrow> (unit \<Rightarrow> 'e + ('e, 'd) File)
     \<Rightarrow> (('e, 'd) File \<Rightarrow> 'e + 'a) \<Rightarrow> Duration
     \<Rightarrow> ('a, 'e) outcome \<times> 'a ConcurrentCachedFile \<times> fs_op list" where
  "ConcurrentCachedFile_Get f now_since now_get open parse maxAge =
     (case CachedFile_Cached (cachedFile f) of
        (c, cachedAt, ok) \<Rightarrow>
          if ok \<and> Duration_less (Time_Sub now_since cachedAt) maxAge
          then (Return c None, f, [])
          else
            case CachedFile_Get (cachedFile f) now_get open parse maxAge of
              (r, d, ops) \<Rightarrow> (r, f\<lparr>cachedFile := d\<rparr>, ops))"

section \<open>Path normalisation\<close>

text \<open>
  \<^verbatim>\<open>cleanPath\<close> is \<^verbatim>\<open>filepath.Clean("/" + path)\<close>. \<^verbatim>\<open>filepath.Clean\<close> belongs to Go's
  library; its algorithm is written out here for a Unix target, where the volume name is
  empty, \<^verbatim>\<open>os.PathSeparator\<close> is the slash and \<^verbatim>\<open>FromSlash\<close> changes nothing. A Go
  string is a sequence of bytes, here a list of \<open>char\<close>. \<open>out\<close> is the part of the output
  buffer written so far (so \<^verbatim>\<open>out.w\<close> is its length) and \<open>path\<close> the input from index
  \<^verbatim>\<open>r\<close> on.
\<close>

definition PathSeparator :: char where
  "PathSeparator = CHR ''/''"

definition IsPathSeparator :: "char \<Rightarrow> bool" where
  "IsPathSeparator c = (c = PathSeparator)"

text \<open>
  The backtracking of a \<^verbatim>\<open>..\<close> element: \<^verbatim>\<open>out.w--\<close>, then again while \<^verbatim>\<open>out.w > dotdot\<close>
  and the byte at \<^verbatim>\<open>out.w\<close> (the one just dropped) is no separator.
\<close>

function backtrack :: "nat \<Rightarrow> string \<Rightarrow> string" where
  "backtrack dotdot out =
     (let out' = butlast out
      in if dotdot < length out' \<and> \<not> IsPathSeparator (last out)
         then backtrack dotdot out' else out')"
  by pat_completeness auto
termination
  by (relation "measure (\<lambda>(dotdot, out). length out)") auto

function Clean_loop :: "bool \<Rightarrow> string \<Rightarrow> string \<Rightarrow> nat \<Rightarrow> string" where
  "Clean_loop rooted [] out dotdot = out"
| "Clean_loop rooted (c # rest) out dotdot =
     (if IsPathSeparator c then Clean_loop rooted rest out dotdot
      else if c = CHR ''.'' \<and> (rest = [] \<or> IsPathSeparator (hd rest))
      then Clean_loop rooted rest out dotdot
      else if c = CHR ''.'' \<and> rest \<noteq> [] \<and> hd rest = CHR ''.''
              \<and> (tl rest = [] \<or> IsPathSeparator (hd (tl rest)))
      then (if dotdot < length out
            then Clean_loop rooted (tl rest) (backtrack dotdot out) dotdot
            else if \<not> rooted
            then (let out' = (if 0 < length out then out @ [PathSeparator] else out) @ ''..''
                  in Clean_loop rooted (tl rest) out' (length out'))
            else Clean_loop rooted (tl rest) out dotdot)
      else (let out' = (if rooted \<and> length out \<noteq> 1 \<or> \<not> rooted \<and> length out \<noteq> 0
                        then out @ [PathSeparator] else out)
            in Clean_loop rooted (dropWhile (\<lambda>x. \<not> IsPathSeparator x) (c # rest))
                 (out' @ takeWhile (\<lambda>x. \<not> IsPathSeparator x) (c # rest)) dotdot))"
  by pat_completeness auto
termination
  by (relation "measure (\<lambda>(rooted, path, out, dotdot). length path)")
    (auto simp: length_dropWhile_le le_imp_less_Suc)

definition Clean :: "string \<Rightarrow> string" where
  "Clean path =
     (if path = [] then ''.''
      else
        let rooted = IsPathSeparator (hd path);
            out = (if rooted then Clean_loop rooted (tl path) [PathSeparator] 1
                   else Clean_loop rooted path [] 0)
        in if length out = 0 then ''.'' else out)"

definition cleanPath :: "string \<Rightarrow> string" where
  "cleanPath path = Clean (''/'' @ path)"



text \<open>
  \<^verbatim>\<open>opener\<close> either panics or returns the function that opens the path in the filesystem.
  A filesystem is what its \<^verbatim>\<open>Open\<close> answers for each name. Reading \<^verbatim>\<open>path[0]\<close> of the
  empty string is Go's index panic.
\<close>

definition opener ::
  "(string \<Rightarrow> 'e + ('e, 'd) File) \<Rightarrow> string \<Rightarrow> string + (unit \<Rightarrow> 'e + ('e, 'd) File)" where
  "opener filesystem path =
     (if path = ''/'' then Inr (\<lambda>_. filesystem ''.'')
      else if path = [] then Inl ''index out of range''
      else if hd path = CHR ''/'' \<or> hd path = PathSeparator then Inr (\<lambda>_. filesystem (tl path))
      else Inl ''path not cleaned correctly'')"

section \<open>The caches\<close>

text \<open>
  The registries map a cleaned path to an entry. The Go maps hold pointers, so what \<open>Get\<close>
  writes to an entry is seen through the map: the model stores the entry back under its
  key. The locks of \<^verbatim>\<open>ConcurrentFsCache\<close> are left out.
\<close>

record ('a, 'e, 'd) FsCache =
  fs :: "string \<Rightarrow> 'e + ('e, 'd) File"
  parser :: "('e, 'd) File \<Rightarrow> 'e + 'a"
  MaxAge :: Duration
  dirs :: "string \<rightharpoonup> 'd CachedDir"
  files :: "string \<rightharpoonup> 'a CachedFile"

record ('a, 'e, 'd) ConcurrentFsCache =
  fs :: "string \<Rightarrow> 'e + ('e, 'd) File"
  parser :: "('e, 'd) File \<Rightarrow> 'e + 'a"
  maxAge :: Duration
  dirs :: "string \<rightharpoonup> 'd ConcurrentCachedDir"
  files :: "string \<rightharpoonup> 'a ConcurrentCachedFile"

definition FsCache_ClearDirs :: "('a, 'e, 'd) FsCache \<Rightarrow> ('a, 'e, 'd) FsCache" where
  "FsCache_ClearDirs cache = cache\<lparr>FsCache.dirs := Map.empty\<rparr>"

definition FsCache_ClearFiles :: "('a, 'e, 'd) FsCache \<Rightarrow> ('a, 'e, 'd) FsCache" where
  "FsCache_ClearFiles cache = cache\<lparr>FsCache.files := Map.empty\<rparr>"

definition FsCache_Clear :: "('a, 'e, 'd) FsCache \<Rightarrow> ('a, 'e, 'd) FsCache" where
  "FsCache_Clear cache = FsCache_ClearFiles (FsCache_ClearDirs cache)"

definition NewFsCache ::
  "(string \<Rightarrow> 'e + ('e, 'd) File) \<Rightarrow> (('e, 'd) File \<Rightarrow> 'e + 'a) \<Rightarrow> Duration
     \<Rightarrow> ('a, 'e, 'd) FsCache" where
  "NewFsCache filesystem parse age =
     FsCache_Clear \<lparr>FsCache.fs = filesystem, parser = parse, MaxAge = age,
                    dirs = Map.empty, files = Map.empty\<rparr>"

definition ConcurrentFsCache_ClearDirs ::
  "('a, 'e, 'd) ConcurrentFsCache \<Rightarrow> ('a, 'e, 'd) ConcurrentFsCache" where
  "ConcurrentFsCache_ClearDirs cache = cache\<lparr>ConcurrentFsCache.dirs := Map.empty\<rparr>"

definition ConcurrentFsCache_ClearFiles ::
  "('a, 'e, 'd) ConcurrentFsCache \<Rightarrow> ('a, 'e, 'd) ConcurrentFsCache" where
  "ConcurrentFsCache_ClearFiles cache = cache\<lparr>ConcurrentFsCache.files := Map.empty\<rparr>"

definition ConcurrentFsCache_Clear ::
  "('a, 'e, 'd) ConcurrentFsCache \<Rightarrow> ('a, 'e, 'd) ConcurrentFsCache" where
  "ConcurrentFsCache_Clear cache =
     ConcurrentFsCache_ClearFiles (ConcurrentFsCache_ClearDirs cache)"

definition NewConcurrentFsCache ::
  "(string \<Rightarrow> 'e + ('e, 'd) File) \<Rightarrow> (('e, 'd) File \<Rightarrow> 'e + 'a) \<Rightarrow> Duration
     \<Rightarrow> ('a, 'e, 'd) ConcurrentFsCache" where
  "NewConcurrentFsCache filesystem parse age =
     ConcurrentFsCache_Clear
       \<lparr>ConcurrentFsCache.fs = filesystem, parser = parse, maxAge = age,
        dirs = Map.empty, files = Map.empty\<rparr>"

definition ConcurrentFsCache_SetMaxAge ::
  "('a, 'e, 'd) ConcurrentFsCache \<Rightarrow> Duration \<Rightarrow> ('a, 'e, 'd) ConcurrentFsCache" where
  "ConcurrentFsCache_SetMaxAge cache age = cache\<lparr>maxAge := age\<rparr>"

text \<open>
  The single-threaded cache. A missing entry is created and stored before \<open>Get\<close> runs; an
  error from \<open>Get\<close> deletes the key. An entry lookup answers \<open>None\<close> for \<^verbatim>\<open>ok = false\<close>.
\<close>

definition FsCache_GetDirEntry :: "('a, 'e, 'd) FsCache \<Rightarrow> string \<Rightarrow> 'd CachedDir option" where
  "FsCache_GetDirEntry cache path = FsCache.dirs cache (cleanPath path)"

definition FsCache_GetDirWithMaxAge ::
  "('a, 'e, 'd) FsCache \<Rightarrow> Time \<Rightarrow> string \<Rightarrow> Duration
     \<Rightarrow> ('d list, 'e) outcome \<times> ('a, 'e, 'd) FsCache \<times> fs_op list" where
  "FsCache_GetDirWithMaxAge cache now dir age =
     (let path = cleanPath dir;
          cached = (case FsCache.dirs cache path of Some c \<Rightarrow> c | None \<Rightarrow> CachedDir_zero);
          cache1 = cache\<lparr>FsCache.dirs := (FsCache.dirs cache)(path \<mapsto> cached)\<rparr>
      in case opener (FsCache.fs cache) path of
           Inl msg \<Rightarrow> (Panic msg, cache1, [])
         | Inr open \<Rightarrow>
             (case CachedDir_Get cached now open age of
                (r, cached', ops) \<Rightarrow>
                  (let cache2 = cache1\<lparr>FsCache.dirs := (FsCache.dirs cache1)(path \<mapsto> cached')\<rparr>
                   in case r of
                        Panic msg \<Rightarrow> (r, cache2, ops)
                      | Return es err \<Rightarrow>
                          if err \<noteq> None
                          then (r, cache2\<lparr>FsCache.dirs := (FsCache.dirs cache2)(path := None)\<rparr>,
                                ops)
                          else (r, cache2, ops))))"

definition FsCache_GetDir ::
  "('a, 'e, 'd) FsCache \<Rightarrow> Time \<Rightarrow> string
     \<Rightarrow> ('d list, 'e) outcome \<times> ('a, 'e, 'd) FsCache \<times> fs_op list" where
  "FsCache_GetDir cache now dir = FsCache_GetDirWithMaxAge cache now dir (MaxAge cache)"

definition FsCache_GetFileEntry :: "('a, 'e, 'd) FsCache \<Rightarrow> string \<Rightarrow> 'a CachedFile option" where
  "FsCache_GetFileEntry cache path = FsCache.files cache (cleanPath path)"

text \<open>\<open>z\<close> is the zero value of the content type, the content of \<^verbatim>\<open>&CachedFile[T]{}\<close>.\<close>

definition FsCache_GetFileWithMaxAge ::
  "('a, 'e, 'd) FsCache \<Rightarrow> 'a \<Rightarrow> Time \<Rightarrow> string \<Rightarrow> Duration
     \<Rightarrow> ('a, 'e) outcome \<times> ('a, 'e, 'd) FsCache \<times> fs_op list" where
  "FsCache_GetFileWithMaxAge cache z now file age =
     (let path = cleanPath file;
          cached = (case FsCache.files cache path of Some c \<Rightarrow> c | None \<Rightarrow> CachedFile_zero z);
          cache1 = cache\<lparr>FsCache.files := (FsCache.files cache)(path \<mapsto> cached)\<rparr>
      in case opener (FsCache.fs cache) path of
           Inl msg \<Rightarrow> (Panic msg, cache1, [])
         | Inr open \<Rightarrow>
             (case CachedFile_Get cached now open (FsCache.parser cache) age of
                (r, cached', ops) \<Rightarrow>
                  (let cache2 = cache1\<lparr>FsCache.files := (FsCache.files cache1)(path \<mapsto> cached')\<rparr>
                   in case r of
                        Panic msg \<Rightarrow> (r, cache2, ops)
                      | Return c err \<Rightarrow>
                          if err \<noteq> None
                          then (r, cache2\<lparr>FsCache.files := (FsCache.files cache2)(path := None)\<rparr>,
                                ops)
                          else (r, cache2, ops))))"

definition FsCache_GetFile ::
  "('a, 'e, 'd) FsCache \<Rightarrow> 'a \<Rightarrow> Time \<Rightarrow> string
     \<Rightarrow> ('a, 'e) outcome \<times> ('a, 'e, 'd) FsCache \<times> fs_op list" where
  "FsCache_GetFile cache z now file = FsCache_GetFileWithMaxAge cache z now file (MaxAge cache)"

text \<open>
  The concurrent cache. A missing entry is created outside the registry and stored only
  when its \<open>Get\<close> returned no error; an entry found in the registry is the one \<open>Get\<close>
  works on, and nothing deletes it.
\<close>

definition ConcurrentFsCache_GetDirEntry ::
  "('a, 'e, 'd) ConcurrentFsCache \<Rightarrow> string \<Rightarrow> 'd ConcurrentCachedDir option" where
  "ConcurrentFsCache_GetDirEntry cache path = ConcurrentFsCache.dirs cache (cleanPath path)"

definition ConcurrentFsCache_getDir ::
  "('a, 'e, 'd) ConcurrentFsCache \<Rightarrow> Time \<Rightarrow> Time \<Rightarrow> string \<Rightarrow> Duration \<Rightarrow> bool
     \<Rightarrow> ('d list, 'e) outcome \<times> ('a, 'e, 'd) ConcurrentFsCache \<times> fs_op list" where
  "ConcurrentFsCache_getDir cache now_since now_get dir age useMaxAge =
     (let path = cleanPath dir;
          found = ConcurrentFsCache.dirs cache path;
          ok = (found \<noteq> None);
          age' = (if \<not> useMaxAge then maxAge cache else age);
          cached = (case found of Some c \<Rightarrow> c | None \<Rightarrow> \<lparr>cachedDir = CachedDir_zero\<rparr>)
      in case opener (ConcurrentFsCache.fs cache) path of
           Inl msg \<Rightarrow> (Panic msg, cache, [])
         | Inr open \<Rightarrow>
             (case ConcurrentCachedDir_Get cached now_since now_get open age' of
                (r, cached', ops) \<Rightarrow>
                  (let cache1 =
                         (if ok
                          then cache\<lparr>ConcurrentFsCache.dirs :=
                                       (ConcurrentFsCache.dirs cache)(path \<mapsto> cached')\<rparr>
                          else cache)
                   in case r of
                        Panic msg \<Rightarrow> (r, cache1, ops)
                      | Return es err \<Rightarrow>
                          if \<not> ok \<and> err = None
                          then (r, cache1\<lparr>ConcurrentFsCache.dirs :=
                                           (ConcurrentFsCache.dirs cache1)(path \<mapsto> cached')\<rparr>,
                                ops)
                          else (r, cache1, ops))))"

definition ConcurrentFsCache_GetDir ::
  "('a, 'e, 'd) ConcurrentFsCache \<Rightarrow> Time \<Rightarrow> Time \<Rightarrow> string
     \<Rightarrow> ('d list, 'e) outcome \<times> ('a, 'e, 'd) ConcurrentFsCache \<times> fs_op list" where
  "ConcurrentFsCache_GetDir cache now_since now_get dir =
     ConcurrentFsCache_getDir cache now_since now_get dir 0 False"

definition ConcurrentFsCache_GetDirWithMaxAge ::
  "('a, 'e, 'd) ConcurrentFsCache \<Rightarrow> Time \<Rightarrow> Time \<Rightarrow> string \<Rightarrow> Duration
     \<Rightarrow> ('d list, 'e) outcome \<times> ('a, 'e, 'd) ConcurrentFsCache \<times> fs_op list" where
  "ConcurrentFsCache_GetDirWithMaxAge cache now_since now_get dir age =
     ConcurrentFsCache_getDir cache now_since now_get dir age True"

definition ConcurrentFsCache_GetFileEntry ::
  "('a, 'e, 'd) ConcurrentFsCache \<Rightarrow> string \<Rightarrow> 'a ConcurrentCachedFile option" where
  "ConcurrentFsCache_GetFileEntry cache path = ConcurrentFsCache.files cache (cleanPath path)"

definition ConcurrentFsCache_getFile ::
  "('a, 'e, 'd) ConcurrentFsCache \<Rightarrow> 'a \<Rightarrow> Time \<Rightarrow> Time \<Rightarrow> string \<Rightarrow> Duration \<Rightarrow> bool
     \<Rightarrow> ('a, 'e) outcome \<times> ('a, 'e, 'd) ConcurrentFsCache \<times> fs_op list" where
  "ConcurrentFsCache_getFile cache z now_since now_get file age useMaxAge =
     (let path = cleanPath file;
          found = ConcurrentFsCache.files cache path;
          ok = (found \<noteq> None);
          age' = (if \<not> useMaxAge then maxAge cache else age);
          cached = (case found of Some c \<Rightarrow> c | None \<Rightarrow> \<lparr>cachedFile = CachedFile_zero z\<rparr>)
      in case opener (ConcurrentFsCache.fs cache) path of
           Inl msg \<Rightarrow> (Panic msg, cache, [])
         | Inr open \<Rightarrow>
             (case ConcurrentCachedFile_Get cached now_since now_get open
                     (ConcurrentFsCache.parser cache) age' of
                (r, cached', ops) \<Rightarrow>
                  (let cache1 =
                         (if ok
                          then cache\<lparr>ConcurrentFsCache.files :=
                                       (ConcurrentFsCache.files cache)(path \<mapsto> cached')\<rparr>
                          else cache)
                   in case r of
                        Panic msg \<Rightarrow> (r, cache1, ops)
                      | Return c err \<Rightarrow>
                          if \<not> ok \<and> err = None
                          then (r, cache1\<lparr>ConcurrentFsCache.files :=
                                           (ConcurrentFsCache.files cache1)(path \<mapsto> cached')\<rparr>,
                                ops)
                          else (r, cache1, ops))))"

definition ConcurrentFsCache_GetFile ::
  "('a, 'e, 'd) ConcurrentFsCache \<Rightarrow> 'a \<Rightarrow> Time \<Rightarrow> Time \<Rightarrow> string
     \<Rightarrow> ('a, 'e) outcome \<times> ('a, 'e, 'd) ConcurrentFsCache \<times> fs_op list" where
  "ConcurrentFsCache_GetFile cache z now_since now_get file =
     ConcurrentFsCache_getFile cache z now_since now_get file 0 False"

definition ConcurrentFsCache_GetFileWithMaxAge ::
  "('a, 'e, 'd) ConcurrentFsCache \<Rightarrow> 'a \<Rightarrow> Time \<Rightarrow> Time \<Rightarrow> string \<Rightarrow> Duration
     \<Rightarrow> ('a, 'e) outcome \<times> ('a, 'e, 'd) ConcurrentFsCache \<times> fs_op list" where
  "ConcurrentFsCache_GetFileWithMaxAge cache z now_since now_get file age =
     ConcurrentFsCache_getFile cache z now_since now_get file age True"

section \<open>Reading a call\<close>

text \<open>
  Which step of a call failed, read from the operations the call made: the step was made
  (it is in the list) and what it answered is the error \<open>e\<close>.
\<close>

definition File_step_fails ::
  "(unit \<Rightarrow> 'e + ('e, 'd) File) \<Rightarrow> (('e, 'd) File \<Rightarrow> 'e + 'a) \<Rightarrow> fs_op list \<Rightarrow> 'e \<Rightarrow> bool" where
  "File_step_fails open parse ops e =
     (case open () of
        Inl err \<Rightarrow> OpOpen \<in> set ops \<and> err = e
      | Inr file \<Rightarrow>
          (OpStat \<in> set ops \<and> Stat file = Inl e) \<or> (OpParse \<in> set ops \<and> parse file = Inl e))"

definition Dir_step_fails ::
  "(unit \<Rightarrow> 'e + ('e, 'd) File) \<Rightarrow> fs_op list \<Rightarrow> 'e \<Rightarrow> bool" where
  "Dir_step_fails open ops e =
     (case open () of
        Inl err \<Rightarrow> OpOpen \<in> set ops \<and> err = e
      | Inr file \<Rightarrow>
          (OpStat \<in> set ops \<and> Stat file = Inl e)
          \<or> (OpReadDir \<in> set ops \<and> ReadDir file = Some (Inl e)))"

section \<open>Example data\<close>

text \<open>
  Values for running the definitions: the clock \<open>n\<close> nanoseconds after a load, with its
  monotonic reading, and modification times, which have none; a file entry and a
  directory entry loaded at clock 0; the FileInfo the file entry was loaded
  from and a changed one; handles of a regular file and of a directory; a filesystem
  without the file; a parser that fails on empty data.
\<close>

definition ex_now :: "int \<Rightarrow> Time" where
  "ex_now n = \<lparr>instant = 63900000000000000000 + n, mono = Some (7000000000 + n), loc = 1\<rparr>"

definition ex_mtime :: "int \<Rightarrow> Time" where
  "ex_mtime n = \<lparr>instant = 63800000000000000000 + n, mono = None, loc = 1\<rparr>"

definition ex_file :: "string CachedFile" where
  "ex_file = \<lparr>CachedFile.lastLoadTime = ex_now 0, lastSize = 5,
              lastModTime = ex_mtime 0, content = ''X''\<rparr>"

definition ex_dir :: "string CachedDir" where
  "ex_dir = \<lparr>CachedDir.lastLoadTime = ex_now 0, lastSize = 4096,
             lastModTime = ex_mtime 0, entries = [''a.json'', ''b.json'']\<rparr>"

definition ex_info :: FileInfo where
  "ex_info = \<lparr>Size = 5, ModTime = ex_mtime 0\<rparr>"

definition ex_dir_info :: FileInfo where
  "ex_dir_info = \<lparr>Size = 4096, ModTime = ex_mtime 0\<rparr>"

definition ex_info_changed :: FileInfo where
  "ex_info_changed = \<lparr>Size = 6, ModTime = ex_mtime 1500000000\<rparr>"

text \<open>The FileInfo of the load again, with the same instant read in UTC.\<close>

definition ex_info_utc :: FileInfo where
  "ex_info_utc = \<lparr>Size = 5, ModTime = (ex_mtime 0)\<lparr>loc := 0\<rparr>\<rparr>"

definition ex_handle :: "FileInfo \<Rightarrow> string \<Rightarrow> (string, string) File" where
  "ex_handle info bytes = \<lparr>Stat = Inr info, ReadDir = None, Data = bytes\<rparr>"

definition ex_dir_handle :: "FileInfo \<Rightarrow> string + string list \<Rightarrow> (string, string) File" where
  "ex_dir_handle info listing = \<lparr>Stat = Inr info, ReadDir = Some listing, Data = []\<rparr>"

definition ex_no_stat :: "(string, string) File" where
  "ex_no_stat = \<lparr>Stat = Inl ''stat failed'', ReadDir = None, Data = []\<rparr>"

definition ex_not_exist :: "unit \<Rightarrow> string + (string, string) File" where
  "ex_not_exist = (\<lambda>_. Inl ''file does not exist'')"

definition ex_parse :: "(string, string) File \<Rightarrow> string + string" where
  "ex_parse file = (if Data file = [] then Inl ''unexpected end of JSON input''
                    else Inr (Data file))"

definition ex_fs :: "string \<Rightarrow> string + (string, string) File" where
  "ex_fs name =
     (if name = ''b.json'' then Inr (ex_handle ex_info ''X'')
      else if name = ''.'' then Inr (ex_dir_handle ex_dir_info (Inr [''b.json'']))
      else Inl ''file does not exist'')"

definition ex_cache :: "(string, string, string) FsCache" where
  "ex_cache = \<lparr>FsCache.fs = ex_fs, parser = ex_parse, MaxAge = 2000000000,
               dirs = [''/gone'' \<mapsto> ex_dir], files = [''/a.json'' \<mapsto> ex_file]\<rparr>"

definition ex_concurrent_cache :: "(string, string, string) ConcurrentFsCache" where
  "ex_concurrent_cache =
     \<lparr>ConcurrentFsCache.fs = ex_fs, parser = ex_parse, maxAge = 2000000000,
      dirs = [''/gone'' \<mapsto> \<lparr>cachedDir = ex_dir\<rparr>],
      files = [''/a.json'' \<mapsto> \<lparr>cachedFile = ex_file\<rparr>]\<rparr>"

lemmas ex_defs =
  ex_now_def ex_mtime_def ex_file_def ex_dir_def ex_info_def ex_dir_info_def
  ex_info_changed_def ex_info_utc_def ex_handle_def ex_dir_handle_def ex_no_stat_def ex_not_exist_def
  ex_parse_def ex_fs_def ex_cache_def ex_concurrent_cache_def

section \<open>The freshness algorithm on one entry\<close>

lemma sint_Duration_saturate:
  "sint (Duration_saturate d) = max minDuration (min maxDuration d)"
proof -
  have r: "sint (word_of_int x :: 64 word) = x" if "- (2 ^ 63) \<le> x" "x < 2 ^ 63" for x :: int
    using that by (simp add: sint_sbintrunc' signed_take_bit_int_eq_self)
  show ?thesis
    by (auto simp: Duration_saturate_def minDuration_def maxDuration_def r)
qed

lemmas Get_defs =
  CachedDir_Get_def CachedFile_Get_def ConcurrentCachedDir_Get_def
  ConcurrentCachedFile_Get_def CachedDir_Cached_def CachedFile_Cached_def

lemma CachedFile_Get_fresh:
  "Duration_less (Time_Sub now (CachedFile.lastLoadTime f)) age
   \<Longrightarrow> CachedFile_Get f now open parse age = (Return (content f) None, f, [])"
  by (simp add: CachedFile_Get_def)

lemma CachedDir_Get_fresh:
  "\<not> Time_IsZero (CachedDir.lastLoadTime f)
   \<Longrightarrow> Duration_less (Time_Sub now (CachedDir.lastLoadTime f)) age
   \<Longrightarrow> CachedDir_Get f now open age = (Return (entries f) None, f, [])"
  by (simp add: CachedDir_Get_def)

lemma ConcurrentCachedFile_Get_fresh:
  assumes "\<not> Time_IsZero (CachedFile.lastLoadTime (cachedFile f))"
    and "Duration_less (Time_Sub now_since (CachedFile.lastLoadTime (cachedFile f))) age
         \<or> Duration_less (Time_Sub now_get (CachedFile.lastLoadTime (cachedFile f))) age"
  shows "ConcurrentCachedFile_Get f now_since now_get open parse age
         = (Return (content (cachedFile f)) None, f, [])"
  using assms
  by (auto simp: ConcurrentCachedFile_Get_def CachedFile_Cached_def CachedFile_Get_fresh)

lemma ConcurrentCachedDir_Get_fresh:
  assumes "\<not> Time_IsZero (CachedDir.lastLoadTime (cachedDir f))"
    and "Duration_less (Time_Sub now_since (CachedDir.lastLoadTime (cachedDir f))) age
         \<or> Duration_less (Time_Sub now_get (CachedDir.lastLoadTime (cachedDir f))) age"
  shows "ConcurrentCachedDir_Get f now_since now_get open age
         = (Return (entries (cachedDir f)) None, f, [])"
  using assms
  by (auto simp: ConcurrentCachedDir_Get_def CachedDir_Cached_def CachedDir_Get_fresh)

lemmas eval_defs =
  Time_IsZero_def Time_zero_def Duration_less_def Time_Sub_def sint_Duration_saturate
  minDuration_def maxDuration_def File_step_fails_def Dir_step_fails_def

lemma CachedFile_Get_error:
  "CachedFile_Get f now open parse age = (out, f', ops) \<Longrightarrow> File_step_fails open parse ops e
   \<Longrightarrow> out = Return (content f) (Some e)"
  by (auto simp: CachedFile_Get_def File_step_fails_def Let_def
      split: if_splits sum.splits)

lemma CachedDir_Get_error:
  "CachedDir_Get f now open age = (out, f', ops) \<Longrightarrow> Dir_step_fails open ops e
   \<Longrightarrow> out = Return (entries f) (Some e)"
  by (auto simp: CachedDir_Get_def Dir_step_fails_def Let_def
      split: if_splits sum.splits option.splits)

lemma ConcurrentCachedFile_Get_error:
  "ConcurrentCachedFile_Get f now_since now_get open parse age = (out, f', ops)
   \<Longrightarrow> File_step_fails open parse ops e
   \<Longrightarrow> out = Return (content (cachedFile f)) (Some e)"
  by (auto simp: ConcurrentCachedFile_Get_def CachedFile_Cached_def File_step_fails_def
      split: if_splits sum.splits prod.splits dest: CachedFile_Get_error [where e = e] simp: File_step_fails_def)

lemma ConcurrentCachedDir_Get_error:
  "ConcurrentCachedDir_Get f now_since now_get open age = (out, f', ops)
   \<Longrightarrow> Dir_step_fails open ops e
   \<Longrightarrow> out = Return (entries (cachedDir f)) (Some e)"
  by (auto simp: ConcurrentCachedDir_Get_def CachedDir_Cached_def Dir_step_fails_def
      split: if_splits sum.splits prod.splits dest: CachedDir_Get_error [where e = e] simp: Dir_step_fails_def)

lemma CachedFile_Get_error_iff:
  "CachedFile_Get f now open parse age = (out, f', ops) \<Longrightarrow>
   (\<exists>v. out = Return v (Some e)) = File_step_fails open parse ops e"
  by (auto simp: CachedFile_Get_def File_step_fails_def Let_def
      split: if_splits sum.splits)

lemma CachedDir_Get_error_iff:
  "CachedDir_Get f now open age = (out, f', ops) \<Longrightarrow>
   (\<exists>v. out = Return v (Some e)) = Dir_step_fails open ops e"
  by (auto simp: CachedDir_Get_def Dir_step_fails_def Let_def
      split: if_splits sum.splits option.splits)

lemma CachedFile_Get_unchanged:
  "CachedFile_Get f now open parse age = (Return v (Some e), f', ops) \<Longrightarrow> f' = f"
  by (auto simp: CachedFile_Get_def Let_def split: if_splits sum.splits)

lemma CachedDir_Get_unchanged:
  "CachedDir_Get f now open age = (Return v (Some e), f', ops) \<Longrightarrow> f' = f"
  by (auto simp: CachedDir_Get_def Let_def split: if_splits sum.splits option.splits)

lemma ConcurrentCachedFile_Get_unchanged:
  "ConcurrentCachedFile_Get f now_since now_get open parse age = (Return v (Some e), f', ops)
   \<Longrightarrow> f' = f"
  by (auto simp: ConcurrentCachedFile_Get_def CachedFile_Cached_def
      split: if_splits prod.splits dest: CachedFile_Get_unchanged)

lemma ConcurrentCachedDir_Get_unchanged:
  "ConcurrentCachedDir_Get f now_since now_get open age = (Return v (Some e), f', ops)
   \<Longrightarrow> f' = f"
  by (auto simp: ConcurrentCachedDir_Get_def CachedDir_Cached_def
      split: if_splits prod.splits dest: CachedDir_Get_unchanged)

text \<open>
  C2. Whenever the open, stat, read or parse step of a \<open>Get\<close> fails with an error \<open>e\<close>,
  the call returns the content (or the entries) the entry held before the call, together
  with exactly \<open>e\<close>. This holds for \<^verbatim>\<open>CachedFile.Get\<close>, \<^verbatim>\<open>CachedDir.Get\<close> and both
  concurrent wrappers. For an entry that was never loaded, the zero entry, the value
  returned is the zero value \<open>z\<close> of the content type, or the empty list.
\<close>

theorem C2_stale_value_with_error:
  "(CachedFile_Get f now open parse age = (out, f', ops) \<and> File_step_fails open parse ops e
    \<longrightarrow> out = Return (content f) (Some e))
   \<and> (CachedDir_Get d now opend age = (outd, d', opsd) \<and> Dir_step_fails opend opsd e
    \<longrightarrow> outd = Return (entries d) (Some e))
   \<and> (ConcurrentCachedFile_Get cf now_since now_get open parse age = (outc, cf', opsc)
      \<and> File_step_fails open parse opsc e
    \<longrightarrow> outc = Return (content (cachedFile cf)) (Some e))
   \<and> (ConcurrentCachedDir_Get cd now_since now_get opend age = (outcd, cd', opscd)
      \<and> Dir_step_fails opend opscd e
    \<longrightarrow> outcd = Return (entries (cachedDir cd)) (Some e))
   \<and> (CachedFile_Get (CachedFile_zero z) now open parse age = (outz, fz, opsz)
      \<and> File_step_fails open parse opsz e
    \<longrightarrow> outz = Return z (Some e))
   \<and> (CachedDir_Get CachedDir_zero now opend age = (outdz, dz, opsdz)
      \<and> Dir_step_fails opend opsdz e
    \<longrightarrow> outdz = Return [] (Some e))"
  using CachedFile_Get_error [of f now "open" parse age out f' ops e]
    CachedDir_Get_error [of d now opend age outd d' opsd e]
    ConcurrentCachedFile_Get_error [of cf now_since now_get "open" parse age outc cf' opsc e]
    ConcurrentCachedDir_Get_error [of cd now_since now_get opend age outcd cd' opscd e]
    CachedFile_Get_error [of "CachedFile_zero z" now "open" parse age outz fz opsz e]
    CachedDir_Get_error [of CachedDir_zero now opend age outdz dz opsdz e]
  by (simp add: CachedFile_zero_def CachedDir_zero_def)

theorem C2_stale_value_with_error_witness:
  "(CachedFile_Get ex_file (ex_now 3000000000) (\<lambda>_. Inr (ex_handle ex_info_changed []))
       ex_parse 2000000000
      = (Return ''X'' (Some ''unexpected end of JSON input''), ex_file,
         [OpOpen, OpStat, OpParse, OpClose])
    \<and> File_step_fails (\<lambda>_. Inr (ex_handle ex_info_changed [])) ex_parse
         [OpOpen, OpStat, OpParse, OpClose] ''unexpected end of JSON input'')
   \<and> (CachedDir_Get ex_dir (ex_now 3000000000)
         (\<lambda>_. Inr (ex_dir_handle ex_info_changed (Inl ''input/output error''))) 2000000000
      = (Return [''a.json'', ''b.json''] (Some ''input/output error''), ex_dir,
         [OpOpen, OpStat, OpReadDir, OpClose])
    \<and> Dir_step_fails (\<lambda>_. Inr (ex_dir_handle ex_info_changed (Inl ''input/output error'')))
         [OpOpen, OpStat, OpReadDir, OpClose] ''input/output error'')
   \<and> (ConcurrentCachedFile_Get \<lparr>cachedFile = ex_file\<rparr> (ex_now 3000000000)
         (ex_now 3000000100) ex_not_exist ex_parse 2000000000
      = (Return ''X'' (Some ''file does not exist''), \<lparr>cachedFile = ex_file\<rparr>, [OpOpen])
    \<and> File_step_fails ex_not_exist ex_parse [OpOpen] ''file does not exist'')
   \<and> (ConcurrentCachedDir_Get \<lparr>cachedDir = ex_dir\<rparr> (ex_now 3000000000)
         (ex_now 3000000100) (\<lambda>_. Inr ex_no_stat) 2000000000
      = (Return [''a.json'', ''b.json''] (Some ''stat failed''), \<lparr>cachedDir = ex_dir\<rparr>,
         [OpOpen, OpStat, OpClose])
    \<and> Dir_step_fails (\<lambda>_. Inr ex_no_stat) [OpOpen, OpStat, OpClose] ''stat failed'')
   \<and> (CachedFile_Get (CachedFile_zero ''zero'') (ex_now 0) ex_not_exist ex_parse 2000000000
      = (Return ''zero'' (Some ''file does not exist''), CachedFile_zero ''zero'', [OpOpen]))
   \<and> (CachedDir_Get CachedDir_zero (ex_now 0) ex_not_exist 2000000000
      = (Return [] (Some ''file does not exist''), CachedDir_zero, [OpOpen]))"
  using C2_stale_value_with_error
    [where f = ex_file and now = "ex_now 3000000000" and age = 2000000000
       and ?open = "\<lambda>_. Inr (ex_handle ex_info_changed [])" and parse = ex_parse
       and e = "''unexpected end of JSON input''"
       and ops = "[OpOpen, OpStat, OpParse, OpClose]" and f' = ex_file
       and out = "Return ''X'' (Some ''unexpected end of JSON input'')"]
    C2_stale_value_with_error
    [where d = ex_dir and now = "ex_now 3000000000" and age = 2000000000
       and opend = "\<lambda>_. Inr (ex_dir_handle ex_info_changed (Inl ''input/output error''))"
       and e = "''input/output error''"
       and opsd = "[OpOpen, OpStat, OpReadDir, OpClose]" and d' = ex_dir
       and outd = "Return [''a.json'', ''b.json''] (Some ''input/output error'')"]
    C2_stale_value_with_error
    [where cf = "\<lparr>cachedFile = ex_file\<rparr>" and now_since = "ex_now 3000000000"
       and now_get = "ex_now 3000000100" and age = 2000000000
       and ?open = ex_not_exist and parse = ex_parse and e = "''file does not exist''"
       and opsc = "[OpOpen]" and cf' = "\<lparr>cachedFile = ex_file\<rparr>"
       and outc = "Return ''X'' (Some ''file does not exist'')"
       and z = "''zero''" and now = "ex_now 0" and outz = "Return ''zero'' (Some ''file does not exist'')"
       and fz = "CachedFile_zero ''zero''" and opsz = "[OpOpen]"]
    C2_stale_value_with_error
    [where cd = "\<lparr>cachedDir = ex_dir\<rparr>" and now_since = "ex_now 3000000000"
       and now_get = "ex_now 3000000100" and age = 2000000000
       and opend = "\<lambda>_. Inr ex_no_stat" and e = "''stat failed''"
       and opscd = "[OpOpen, OpStat, OpClose]" and cd' = "\<lparr>cachedDir = ex_dir\<rparr>"
       and outcd = "Return [''a.json'', ''b.json''] (Some ''stat failed'')"]
    C2_stale_value_with_error
    [where opend = ex_not_exist and e = "''file does not exist''" and now = "ex_now 0"
       and age = 2000000000 and outdz = "Return [] (Some ''file does not exist'')"
       and dz = CachedDir_zero and opsdz = "[OpOpen]"]
  by (simp add: eval_defs ex_defs Get_defs CachedFile_zero_def CachedDir_zero_def)

text \<open>
  C3. A \<open>Get\<close> that fails at any step (a step of it failed, or it returned an error that
  is not nil) leaves the entry exactly as it was: the entry after the call equals the
  entry before it, so \<open>content\<close> or \<open>entries\<close>, \<open>lastSize\<close>, \<open>lastModTime\<close> and
  \<open>lastLoadTime\<close> are all unchanged. This holds for both \<open>Get\<close> functions and both
  concurrent wrappers.
\<close>

theorem C3_failed_get_leaves_entry:
  "(CachedFile_Get f now open parse age = (out, f', ops)
      \<and> (File_step_fails open parse ops e \<or> out = Return v (Some e))
    \<longrightarrow> f' = f)
   \<and> (CachedDir_Get d now opend age = (outd, d', opsd)
      \<and> (Dir_step_fails opend opsd e \<or> outd = Return vd (Some e))
    \<longrightarrow> d' = d)
   \<and> (ConcurrentCachedFile_Get cf now_since now_get open parse age = (outc, cf', opsc)
      \<and> (File_step_fails open parse opsc e \<or> outc = Return v (Some e))
    \<longrightarrow> cf' = cf)
   \<and> (ConcurrentCachedDir_Get cd now_since now_get opend age = (outcd, cd', opscd)
      \<and> (Dir_step_fails opend opscd e \<or> outcd = Return vd (Some e))
    \<longrightarrow> cd' = cd)"
proof (intro conjI impI; elim conjE)
  assume g: "CachedFile_Get f now open parse age = (out, f', ops)"
    and h: "File_step_fails open parse ops e \<or> out = Return v (Some e)"
  from h g have "\<exists>w. out = Return w (Some e)"
    by (auto dest: CachedFile_Get_error)
  with g show "f' = f" by (auto dest: CachedFile_Get_unchanged)
next
  assume g: "CachedDir_Get d now opend age = (outd, d', opsd)"
    and h: "Dir_step_fails opend opsd e \<or> outd = Return vd (Some e)"
  from h g have "\<exists>w. outd = Return w (Some e)"
    by (auto dest: CachedDir_Get_error)
  with g show "d' = d" by (auto dest: CachedDir_Get_unchanged)
next
  assume g: "ConcurrentCachedFile_Get cf now_since now_get open parse age = (outc, cf', opsc)"
    and h: "File_step_fails open parse opsc e \<or> outc = Return v (Some e)"
  from h g have "\<exists>w. outc = Return w (Some e)"
    by (auto dest: ConcurrentCachedFile_Get_error)
  with g show "cf' = cf" by (auto dest: ConcurrentCachedFile_Get_unchanged)
next
  assume g: "ConcurrentCachedDir_Get cd now_since now_get opend age = (outcd, cd', opscd)"
    and h: "Dir_step_fails opend opscd e \<or> outcd = Return vd (Some e)"
  from h g have "\<exists>w. outcd = Return w (Some e)"
    by (auto dest: ConcurrentCachedDir_Get_error)
  with g show "cd' = cd" by (auto dest: ConcurrentCachedDir_Get_unchanged)
qed

theorem C3_failed_get_leaves_entry_witness:
  "(CachedFile_Get ex_file (ex_now 3000000000) (\<lambda>_. Inr (ex_handle ex_info_changed []))
       ex_parse 2000000000
      = (Return ''X'' (Some ''unexpected end of JSON input''), ex_file,
         [OpOpen, OpStat, OpParse, OpClose])
    \<and> File_step_fails (\<lambda>_. Inr (ex_handle ex_info_changed [])) ex_parse
         [OpOpen, OpStat, OpParse, OpClose] ''unexpected end of JSON input'')
   \<and> (CachedDir_Get ex_dir (ex_now 3000000000)
         (\<lambda>_. Inr (ex_dir_handle ex_info_changed (Inl ''input/output error''))) 2000000000
      = (Return [''a.json'', ''b.json''] (Some ''input/output error''), ex_dir,
         [OpOpen, OpStat, OpReadDir, OpClose])
    \<and> Dir_step_fails (\<lambda>_. Inr (ex_dir_handle ex_info_changed (Inl ''input/output error'')))
         [OpOpen, OpStat, OpReadDir, OpClose] ''input/output error'')
   \<and> (ConcurrentCachedFile_Get \<lparr>cachedFile = ex_file\<rparr> (ex_now 3000000000)
         (ex_now 3000000100) ex_not_exist ex_parse 2000000000
      = (Return ''X'' (Some ''file does not exist''), \<lparr>cachedFile = ex_file\<rparr>, [OpOpen])
    \<and> File_step_fails ex_not_exist ex_parse [OpOpen] ''file does not exist'')
   \<and> (ConcurrentCachedDir_Get \<lparr>cachedDir = ex_dir\<rparr> (ex_now 3000000000)
         (ex_now 3000000100) (\<lambda>_. Inr ex_no_stat) 2000000000
      = (Return [''a.json'', ''b.json''] (Some ''stat failed''), \<lparr>cachedDir = ex_dir\<rparr>,
         [OpOpen, OpStat, OpClose])
    \<and> Dir_step_fails (\<lambda>_. Inr ex_no_stat) [OpOpen, OpStat, OpClose] ''stat failed'')"
  using C3_failed_get_leaves_entry
    [where f = ex_file and now = "ex_now 3000000000" and age = 2000000000
       and ?open = "\<lambda>_. Inr (ex_handle ex_info_changed [])" and parse = ex_parse
       and e = "''unexpected end of JSON input''" and v = "''X''"
       and ops = "[OpOpen, OpStat, OpParse, OpClose]" and f' = ex_file
       and out = "Return ''X'' (Some ''unexpected end of JSON input'')"]
    C3_failed_get_leaves_entry
    [where d = ex_dir and now = "ex_now 3000000000" and age = 2000000000
       and opend = "\<lambda>_. Inr (ex_dir_handle ex_info_changed (Inl ''input/output error''))"
       and e = "''input/output error''" and vd = "[''a.json'', ''b.json'']"
       and opsd = "[OpOpen, OpStat, OpReadDir, OpClose]" and d' = ex_dir
       and outd = "Return [''a.json'', ''b.json''] (Some ''input/output error'')"]
    C3_failed_get_leaves_entry
    [where cf = "\<lparr>cachedFile = ex_file\<rparr>" and now_since = "ex_now 3000000000"
       and now_get = "ex_now 3000000100" and age = 2000000000
       and ?open = ex_not_exist and parse = ex_parse and e = "''file does not exist''"
       and opsc = "[OpOpen]" and cf' = "\<lparr>cachedFile = ex_file\<rparr>" and v = "''X''"
       and outc = "Return ''X'' (Some ''file does not exist'')"]
    C3_failed_get_leaves_entry
    [where cd = "\<lparr>cachedDir = ex_dir\<rparr>" and now_since = "ex_now 3000000000"
       and now_get = "ex_now 3000000100" and age = 2000000000
       and opend = "\<lambda>_. Inr ex_no_stat" and e = "''stat failed''"
       and opscd = "[OpOpen, OpStat, OpClose]" and cd' = "\<lparr>cachedDir = ex_dir\<rparr>"
       and vd = "[''a.json'', ''b.json'']"
       and outcd = "Return [''a.json'', ''b.json''] (Some ''stat failed'')"]
  by (simp add: eval_defs ex_defs Get_defs)

text \<open>
  C4. When a \<open>Get\<close> on a loaded entry gets as far as the stat (the entry is too old for the
  first test and the open succeeds) and the stat answers the size and the modification
  time the entry holds (the two Times are \<^verbatim>\<open>==\<close>: the same instant, monotonic reading
  and Location), the call sets \<open>lastLoadTime\<close> to the current time and nothing
  else: \<open>content\<close> or \<open>entries\<close>, \<open>lastSize\<close> and \<open>lastModTime\<close> stay; it opens, stats
  and closes without reading or parsing; and it returns the cached value with a nil
  error. For the concurrent wrappers the current time is the clock read by the wrapped
  call.
\<close>

theorem C4_validation_hit:
  "(\<not> Duration_less (Time_Sub now (CachedFile.lastLoadTime f)) age
      \<and> open () = Inr file \<and> Stat file = Inr stats
      \<and> \<not> Time_IsZero (CachedFile.lastLoadTime f)
      \<and> Size stats = CachedFile.lastSize f \<and> ModTime stats = CachedFile.lastModTime f
    \<longrightarrow> CachedFile_Get f now open parse age
        = (Return (content f) None,
           \<lparr>CachedFile.lastLoadTime = now, lastSize = CachedFile.lastSize f,
            lastModTime = CachedFile.lastModTime f, content = content f\<rparr>,
           [OpOpen, OpStat, OpClose]))
   \<and> (\<not> Duration_less (Time_Sub now (CachedDir.lastLoadTime d)) age
      \<and> opend () = Inr dirfile \<and> Stat dirfile = Inr dirstats
      \<and> \<not> Time_IsZero (CachedDir.lastLoadTime d)
      \<and> Size dirstats = CachedDir.lastSize d \<and> ModTime dirstats = CachedDir.lastModTime d
    \<longrightarrow> CachedDir_Get d now opend age
        = (Return (entries d) None,
           \<lparr>CachedDir.lastLoadTime = now, lastSize = CachedDir.lastSize d,
            lastModTime = CachedDir.lastModTime d, entries = entries d\<rparr>,
           [OpOpen, OpStat, OpClose]))
   \<and> (\<not> Duration_less (Time_Sub now_since (CachedFile.lastLoadTime (cachedFile cf))) age
      \<and> \<not> Duration_less (Time_Sub now (CachedFile.lastLoadTime (cachedFile cf))) age
      \<and> open () = Inr file \<and> Stat file = Inr stats
      \<and> \<not> Time_IsZero (CachedFile.lastLoadTime (cachedFile cf))
      \<and> Size stats = CachedFile.lastSize (cachedFile cf)
      \<and> ModTime stats = CachedFile.lastModTime (cachedFile cf)
    \<longrightarrow> ConcurrentCachedFile_Get cf now_since now open parse age
        = (Return (content (cachedFile cf)) None,
           \<lparr>cachedFile =
              \<lparr>CachedFile.lastLoadTime = now,
               lastSize = CachedFile.lastSize (cachedFile cf),
               lastModTime = CachedFile.lastModTime (cachedFile cf),
               content = content (cachedFile cf)\<rparr>\<rparr>,
           [OpOpen, OpStat, OpClose]))
   \<and> (\<not> Duration_less (Time_Sub now_since (CachedDir.lastLoadTime (cachedDir cd))) age
      \<and> \<not> Duration_less (Time_Sub now (CachedDir.lastLoadTime (cachedDir cd))) age
      \<and> opend () = Inr dirfile \<and> Stat dirfile = Inr dirstats
      \<and> \<not> Time_IsZero (CachedDir.lastLoadTime (cachedDir cd))
      \<and> Size dirstats = CachedDir.lastSize (cachedDir cd)
      \<and> ModTime dirstats = CachedDir.lastModTime (cachedDir cd)
    \<longrightarrow> ConcurrentCachedDir_Get cd now_since now opend age
        = (Return (entries (cachedDir cd)) None,
           \<lparr>cachedDir =
              \<lparr>CachedDir.lastLoadTime = now,
               lastSize = CachedDir.lastSize (cachedDir cd),
               lastModTime = CachedDir.lastModTime (cachedDir cd),
               entries = entries (cachedDir cd)\<rparr>\<rparr>,
           [OpOpen, OpStat, OpClose]))"
proof (intro conjI impI; elim conjE)
  show "CachedFile_Get f now open parse age
        = (Return (content f) None,
           \<lparr>CachedFile.lastLoadTime = now, lastSize = CachedFile.lastSize f,
            lastModTime = CachedFile.lastModTime f, content = content f\<rparr>,
           [OpOpen, OpStat, OpClose])"
    if "\<not> Duration_less (Time_Sub now (CachedFile.lastLoadTime f)) age"
      "open () = Inr file" "Stat file = Inr stats"
      "\<not> Time_IsZero (CachedFile.lastLoadTime f)"
      "Size stats = CachedFile.lastSize f" "ModTime stats = CachedFile.lastModTime f"
    using that by (cases f) (simp add: CachedFile_Get_def)
  show "CachedDir_Get d now opend age
        = (Return (entries d) None,
           \<lparr>CachedDir.lastLoadTime = now, lastSize = CachedDir.lastSize d,
            lastModTime = CachedDir.lastModTime d, entries = entries d\<rparr>,
           [OpOpen, OpStat, OpClose])"
    if "\<not> Duration_less (Time_Sub now (CachedDir.lastLoadTime d)) age"
      "opend () = Inr dirfile" "Stat dirfile = Inr dirstats"
      "\<not> Time_IsZero (CachedDir.lastLoadTime d)"
      "Size dirstats = CachedDir.lastSize d" "ModTime dirstats = CachedDir.lastModTime d"
    using that by (cases d) (simp add: CachedDir_Get_def)
  show "ConcurrentCachedFile_Get cf now_since now open parse age
        = (Return (content (cachedFile cf)) None,
           \<lparr>cachedFile =
              \<lparr>CachedFile.lastLoadTime = now,
               lastSize = CachedFile.lastSize (cachedFile cf),
               lastModTime = CachedFile.lastModTime (cachedFile cf),
               content = content (cachedFile cf)\<rparr>\<rparr>,
           [OpOpen, OpStat, OpClose])"
    if "\<not> Duration_less (Time_Sub now_since (CachedFile.lastLoadTime (cachedFile cf))) age"
      "\<not> Duration_less (Time_Sub now (CachedFile.lastLoadTime (cachedFile cf))) age"
      "open () = Inr file" "Stat file = Inr stats"
      "\<not> Time_IsZero (CachedFile.lastLoadTime (cachedFile cf))"
      "Size stats = CachedFile.lastSize (cachedFile cf)"
      "ModTime stats = CachedFile.lastModTime (cachedFile cf)"
    using that
    by (cases cf; cases "cachedFile cf")
      (simp add: ConcurrentCachedFile_Get_def CachedFile_Cached_def CachedFile_Get_def)
  show "ConcurrentCachedDir_Get cd now_since now opend age
        = (Return (entries (cachedDir cd)) None,
           \<lparr>cachedDir =
              \<lparr>CachedDir.lastLoadTime = now,
               lastSize = CachedDir.lastSize (cachedDir cd),
               lastModTime = CachedDir.lastModTime (cachedDir cd),
               entries = entries (cachedDir cd)\<rparr>\<rparr>,
           [OpOpen, OpStat, OpClose])"
    if "\<not> Duration_less (Time_Sub now_since (CachedDir.lastLoadTime (cachedDir cd))) age"
      "\<not> Duration_less (Time_Sub now (CachedDir.lastLoadTime (cachedDir cd))) age"
      "opend () = Inr dirfile" "Stat dirfile = Inr dirstats"
      "\<not> Time_IsZero (CachedDir.lastLoadTime (cachedDir cd))"
      "Size dirstats = CachedDir.lastSize (cachedDir cd)"
      "ModTime dirstats = CachedDir.lastModTime (cachedDir cd)"
    using that
    by (cases cd; cases "cachedDir cd")
      (simp add: ConcurrentCachedDir_Get_def CachedDir_Cached_def CachedDir_Get_def)
qed

theorem C4_validation_hit_witness:
  "(\<not> Duration_less (Time_Sub (ex_now 3000000000) (CachedFile.lastLoadTime ex_file))
        2000000000
    \<and> Stat (ex_handle ex_info ''Y'') = Inr ex_info
    \<and> \<not> Time_IsZero (CachedFile.lastLoadTime ex_file)
    \<and> Size ex_info = CachedFile.lastSize ex_file
    \<and> ModTime ex_info = CachedFile.lastModTime ex_file
    \<and> CachedFile_Get ex_file (ex_now 3000000000) (\<lambda>_. Inr (ex_handle ex_info ''Y''))
          ex_parse 2000000000
        = (Return ''X'' None,
           \<lparr>CachedFile.lastLoadTime = ex_now 3000000000, lastSize = 5,
            lastModTime = ex_mtime 0, content = ''X''\<rparr>,
           [OpOpen, OpStat, OpClose]))
   \<and> CachedDir_Get ex_dir (ex_now 3000000000)
        (\<lambda>_. Inr (ex_dir_handle ex_dir_info (Inr [''b.json'']))) 2000000000
      = (Return [''a.json'', ''b.json''] None,
         \<lparr>CachedDir.lastLoadTime = ex_now 3000000000, lastSize = 4096,
          lastModTime = ex_mtime 0, entries = [''a.json'', ''b.json'']\<rparr>,
         [OpOpen, OpStat, OpClose])
   \<and> ConcurrentCachedFile_Get \<lparr>cachedFile = ex_file\<rparr> (ex_now 2000000000)
        (ex_now 3000000000) (\<lambda>_. Inr (ex_handle ex_info ''Y'')) ex_parse 2000000000
      = (Return ''X'' None,
         \<lparr>cachedFile =
            \<lparr>CachedFile.lastLoadTime = ex_now 3000000000, lastSize = 5,
             lastModTime = ex_mtime 0, content = ''X''\<rparr>\<rparr>,
         [OpOpen, OpStat, OpClose])
   \<and> ConcurrentCachedDir_Get \<lparr>cachedDir = ex_dir\<rparr> (ex_now 2000000000)
        (ex_now 3000000000) (\<lambda>_. Inr (ex_dir_handle ex_dir_info (Inr [''b.json''])))
        2000000000
      = (Return [''a.json'', ''b.json''] None,
         \<lparr>cachedDir =
            \<lparr>CachedDir.lastLoadTime = ex_now 3000000000, lastSize = 4096,
             lastModTime = ex_mtime 0, entries = [''a.json'', ''b.json'']\<rparr>\<rparr>,
         [OpOpen, OpStat, OpClose])"
  using C4_validation_hit
    [where f = ex_file and now = "ex_now 3000000000" and age = 2000000000
       and ?open = "\<lambda>_. Inr (ex_handle ex_info ''Y'')" and parse = ex_parse
       and ?file = "ex_handle ex_info ''Y''" and stats = ex_info
       and cf = "\<lparr>cachedFile = ex_file\<rparr>" and now_since = "ex_now 2000000000"
       and d = ex_dir
       and opend = "\<lambda>_. Inr (ex_dir_handle ex_dir_info (Inr [''b.json'']))"
       and dirfile = "ex_dir_handle ex_dir_info (Inr [''b.json''])"
       and dirstats = ex_dir_info and cd = "\<lparr>cachedDir = ex_dir\<rparr>"]
  by (simp add: eval_defs ex_defs)

text \<open>
  C5. When a \<open>Get\<close> gets as far as the read or the parse (the entry is too old for the
  first test, the open and the stat succeed, and the entry is not loaded or the stat
  differs from what it holds) and that step succeeds, the entry becomes: the value just
  read, the size and modification time of the stat of this call, and the current time as
  \<open>lastLoadTime\<close>; the call returns the new value with a nil error. The clock does not
  read the zero Time, and then the entry counts as loaded: \<open>Cached\<close> answers true. The
  concurrent wrappers, past their own first test, give the result of the wrapped call.
\<close>

theorem C5_full_load:
  "(\<not> Duration_less (Time_Sub now (CachedFile.lastLoadTime f)) age
      \<and> open () = Inr file \<and> Stat file = Inr stats
      \<and> \<not> (\<not> Time_IsZero (CachedFile.lastLoadTime f)
            \<and> Size stats = CachedFile.lastSize f \<and> ModTime stats = CachedFile.lastModTime f)
      \<and> parse file = Inr c
    \<longrightarrow> CachedFile_Get f now open parse age
        = (Return c None,
           \<lparr>CachedFile.lastLoadTime = now, lastSize = Size stats,
            lastModTime = ModTime stats, content = c\<rparr>,
           [OpOpen, OpStat, OpParse, OpClose])
      \<and> (\<not> Time_IsZero now
         \<longrightarrow> CachedFile_Cached
               \<lparr>CachedFile.lastLoadTime = now, lastSize = Size stats,
                lastModTime = ModTime stats, content = c\<rparr> = (c, now, True)))
   \<and> (\<not> (\<not> Time_IsZero (CachedDir.lastLoadTime d)
           \<and> Duration_less (Time_Sub now (CachedDir.lastLoadTime d)) age)
      \<and> opend () = Inr dirfile \<and> Stat dirfile = Inr dirstats
      \<and> \<not> (\<not> Time_IsZero (CachedDir.lastLoadTime d)
            \<and> Size dirstats = CachedDir.lastSize d \<and> ModTime dirstats = CachedDir.lastModTime d)
      \<and> ReadDir dirfile = Some (Inr es)
    \<longrightarrow> CachedDir_Get d now opend age
        = (Return es None,
           \<lparr>CachedDir.lastLoadTime = now, lastSize = Size dirstats,
            lastModTime = ModTime dirstats, entries = es\<rparr>,
           [OpOpen, OpStat, OpReadDir, OpClose])
      \<and> (\<not> Time_IsZero now
         \<longrightarrow> CachedDir_Cached
               \<lparr>CachedDir.lastLoadTime = now, lastSize = Size dirstats,
                lastModTime = ModTime dirstats, entries = es\<rparr> = (es, now, True)))
   \<and> (\<not> (\<not> Time_IsZero (CachedFile.lastLoadTime (cachedFile cf))
           \<and> Duration_less (Time_Sub now_since (CachedFile.lastLoadTime (cachedFile cf))) age)
      \<and> \<not> Duration_less (Time_Sub now (CachedFile.lastLoadTime (cachedFile cf))) age
      \<and> open () = Inr file \<and> Stat file = Inr stats
      \<and> \<not> (\<not> Time_IsZero (CachedFile.lastLoadTime (cachedFile cf))
            \<and> Size stats = CachedFile.lastSize (cachedFile cf)
            \<and> ModTime stats = CachedFile.lastModTime (cachedFile cf))
      \<and> parse file = Inr c
    \<longrightarrow> ConcurrentCachedFile_Get cf now_since now open parse age
        = (Return c None,
           \<lparr>cachedFile =
              \<lparr>CachedFile.lastLoadTime = now, lastSize = Size stats,
               lastModTime = ModTime stats, content = c\<rparr>\<rparr>,
           [OpOpen, OpStat, OpParse, OpClose]))
   \<and> (\<not> (\<not> Time_IsZero (CachedDir.lastLoadTime (cachedDir cd))
           \<and> Duration_less (Time_Sub now_since (CachedDir.lastLoadTime (cachedDir cd))) age)
      \<and> \<not> (\<not> Time_IsZero (CachedDir.lastLoadTime (cachedDir cd))
           \<and> Duration_less (Time_Sub now (CachedDir.lastLoadTime (cachedDir cd))) age)
      \<and> opend () = Inr dirfile \<and> Stat dirfile = Inr dirstats
      \<and> \<not> (\<not> Time_IsZero (CachedDir.lastLoadTime (cachedDir cd))
            \<and> Size dirstats = CachedDir.lastSize (cachedDir cd)
            \<and> ModTime dirstats = CachedDir.lastModTime (cachedDir cd))
      \<and> ReadDir dirfile = Some (Inr es)
    \<longrightarrow> ConcurrentCachedDir_Get cd now_since now opend age
        = (Return es None,
           \<lparr>cachedDir =
              \<lparr>CachedDir.lastLoadTime = now, lastSize = Size dirstats,
               lastModTime = ModTime dirstats, entries = es\<rparr>\<rparr>,
           [OpOpen, OpStat, OpReadDir, OpClose]))"
proof (intro conjI impI; elim conjE)
  assume "\<not> Duration_less (Time_Sub now (CachedFile.lastLoadTime f)) age"
    "open () = Inr file" "Stat file = Inr stats"
    "\<not> (\<not> Time_IsZero (CachedFile.lastLoadTime f)
        \<and> Size stats = CachedFile.lastSize f \<and> ModTime stats = CachedFile.lastModTime f)"
    "parse file = Inr c"
  then show "CachedFile_Get f now open parse age
        = (Return c None,
           \<lparr>CachedFile.lastLoadTime = now, lastSize = Size stats,
            lastModTime = ModTime stats, content = c\<rparr>,
           [OpOpen, OpStat, OpParse, OpClose])"
    by (cases f) (auto simp: CachedFile_Get_def)
next
  assume "\<not> (\<not> Time_IsZero (CachedDir.lastLoadTime d)
           \<and> Duration_less (Time_Sub now (CachedDir.lastLoadTime d)) age)"
    "opend () = Inr dirfile" "Stat dirfile = Inr dirstats"
    "\<not> (\<not> Time_IsZero (CachedDir.lastLoadTime d)
        \<and> Size dirstats = CachedDir.lastSize d \<and> ModTime dirstats = CachedDir.lastModTime d)"
    "ReadDir dirfile = Some (Inr es)"
  then show "CachedDir_Get d now opend age
        = (Return es None,
           \<lparr>CachedDir.lastLoadTime = now, lastSize = Size dirstats,
            lastModTime = ModTime dirstats, entries = es\<rparr>,
           [OpOpen, OpStat, OpReadDir, OpClose])"
    by (cases d) (auto simp: CachedDir_Get_def)
next
  assume "\<not> (\<not> Time_IsZero (CachedFile.lastLoadTime (cachedFile cf))
           \<and> Duration_less (Time_Sub now_since (CachedFile.lastLoadTime (cachedFile cf))) age)"
    "\<not> Duration_less (Time_Sub now (CachedFile.lastLoadTime (cachedFile cf))) age"
    "open () = Inr file" "Stat file = Inr stats"
    "\<not> (\<not> Time_IsZero (CachedFile.lastLoadTime (cachedFile cf))
        \<and> Size stats = CachedFile.lastSize (cachedFile cf)
        \<and> ModTime stats = CachedFile.lastModTime (cachedFile cf))"
    "parse file = Inr c"
  then show "ConcurrentCachedFile_Get cf now_since now open parse age
        = (Return c None,
           \<lparr>cachedFile =
              \<lparr>CachedFile.lastLoadTime = now, lastSize = Size stats,
               lastModTime = ModTime stats, content = c\<rparr>\<rparr>,
           [OpOpen, OpStat, OpParse, OpClose])"
    by (cases cf; cases "cachedFile cf")
      (auto simp: ConcurrentCachedFile_Get_def CachedFile_Cached_def CachedFile_Get_def)
next
  assume "\<not> (\<not> Time_IsZero (CachedDir.lastLoadTime (cachedDir cd))
           \<and> Duration_less (Time_Sub now_since (CachedDir.lastLoadTime (cachedDir cd))) age)"
    "\<not> (\<not> Time_IsZero (CachedDir.lastLoadTime (cachedDir cd))
           \<and> Duration_less (Time_Sub now (CachedDir.lastLoadTime (cachedDir cd))) age)"
    "opend () = Inr dirfile" "Stat dirfile = Inr dirstats"
    "\<not> (\<not> Time_IsZero (CachedDir.lastLoadTime (cachedDir cd))
        \<and> Size dirstats = CachedDir.lastSize (cachedDir cd)
        \<and> ModTime dirstats = CachedDir.lastModTime (cachedDir cd))"
    "ReadDir dirfile = Some (Inr es)"
  then show "ConcurrentCachedDir_Get cd now_since now opend age
        = (Return es None,
           \<lparr>cachedDir =
              \<lparr>CachedDir.lastLoadTime = now, lastSize = Size dirstats,
               lastModTime = ModTime dirstats, entries = es\<rparr>\<rparr>,
           [OpOpen, OpStat, OpReadDir, OpClose])"
    by (cases cd; cases "cachedDir cd")
      (auto simp: ConcurrentCachedDir_Get_def CachedDir_Cached_def CachedDir_Get_def)
qed (simp_all add: CachedFile_Cached_def CachedDir_Cached_def)

theorem C5_full_load_witness:
  "(\<not> Duration_less (Time_Sub (ex_now 3000000000) (CachedFile.lastLoadTime ex_file))
        2000000000
    \<and> Stat (ex_handle ex_info_changed ''Y'') = Inr ex_info_changed
    \<and> \<not> (\<not> Time_IsZero (CachedFile.lastLoadTime ex_file)
          \<and> Size ex_info_changed = CachedFile.lastSize ex_file
          \<and> ModTime ex_info_changed = CachedFile.lastModTime ex_file)
    \<and> ex_parse (ex_handle ex_info_changed ''Y'') = Inr ''Y''
    \<and> \<not> Time_IsZero (ex_now 3000000000)
    \<and> CachedFile_Get ex_file (ex_now 3000000000)
          (\<lambda>_. Inr (ex_handle ex_info_changed ''Y'')) ex_parse 2000000000
        = (Return ''Y'' None,
           \<lparr>CachedFile.lastLoadTime = ex_now 3000000000, lastSize = 6,
            lastModTime = ex_mtime 1500000000, content = ''Y''\<rparr>,
           [OpOpen, OpStat, OpParse, OpClose]))
   \<and> CachedDir_Get CachedDir_zero (ex_now 3000000000)
        (\<lambda>_. Inr (ex_dir_handle ex_dir_info (Inr [''a.json'', ''b.json'']))) 2000000000
      = (Return [''a.json'', ''b.json''] None,
         \<lparr>CachedDir.lastLoadTime = ex_now 3000000000, lastSize = 4096,
          lastModTime = ex_mtime 0, entries = [''a.json'', ''b.json'']\<rparr>,
         [OpOpen, OpStat, OpReadDir, OpClose])
   \<and> CachedDir_Cached
        \<lparr>CachedDir.lastLoadTime = ex_now 3000000000, lastSize = 4096,
         lastModTime = ex_mtime 0, entries = [''a.json'', ''b.json'']\<rparr>
      = ([''a.json'', ''b.json''], ex_now 3000000000, True)
   \<and> ConcurrentCachedFile_Get \<lparr>cachedFile = ex_file\<rparr> (ex_now 2000000000)
        (ex_now 3000000000) (\<lambda>_. Inr (ex_handle ex_info_changed ''Y'')) ex_parse
        2000000000
      = (Return ''Y'' None,
         \<lparr>cachedFile =
            \<lparr>CachedFile.lastLoadTime = ex_now 3000000000, lastSize = 6,
             lastModTime = ex_mtime 1500000000, content = ''Y''\<rparr>\<rparr>,
         [OpOpen, OpStat, OpParse, OpClose])
   \<and> ConcurrentCachedDir_Get \<lparr>cachedDir = CachedDir_zero\<rparr> (ex_now 2000000000)
        (ex_now 3000000000)
        (\<lambda>_. Inr (ex_dir_handle ex_dir_info (Inr [''a.json'', ''b.json'']))) 2000000000
      = (Return [''a.json'', ''b.json''] None,
         \<lparr>cachedDir =
            \<lparr>CachedDir.lastLoadTime = ex_now 3000000000, lastSize = 4096,
             lastModTime = ex_mtime 0, entries = [''a.json'', ''b.json'']\<rparr>\<rparr>,
         [OpOpen, OpStat, OpReadDir, OpClose])"
  using C5_full_load
    [where f = ex_file and now = "ex_now 3000000000" and age = 2000000000
       and ?open = "\<lambda>_. Inr (ex_handle ex_info_changed ''Y'')" and parse = ex_parse
       and ?file = "ex_handle ex_info_changed ''Y''" and stats = ex_info_changed
       and c = "''Y''" and d = "CachedDir_zero :: string CachedDir"
       and opend = "\<lambda>_. Inr (ex_dir_handle ex_dir_info (Inr [''a.json'', ''b.json'']))"
       and dirfile = "ex_dir_handle ex_dir_info (Inr [''a.json'', ''b.json''])"
       and dirstats = ex_dir_info and es = "[''a.json'', ''b.json'']"
       and cf = "\<lparr>cachedFile = ex_file\<rparr>" and now_since = "ex_now 2000000000"
       and cd = "\<lparr>cachedDir = CachedDir_zero\<rparr>"]
  by (simp add: eval_defs ex_defs CachedDir_zero_def)

lemma not_fresh_nonpositive:
  "sint age \<le> 0 \<Longrightarrow> 0 \<le> sint (Time_Sub t u) \<Longrightarrow> \<not> Duration_less (Time_Sub t u) age"
  by (simp add: Duration_less_def)

text \<open>
  When the elapsed time is not negative: both Times carry a monotonic reading and the
  readings do not go backwards, or one of them carries none and the wall clock does not
  go backwards.
\<close>

lemma Time_Sub_nonneg:
  "(case (mono t, mono u) of (Some a, Some b) \<Rightarrow> b \<le> a | _ \<Rightarrow> instant u \<le> instant t)
   \<Longrightarrow> 0 \<le> sint (Time_Sub t u)"
  by (auto simp: Time_Sub_def sint_Duration_saturate minDuration_def maxDuration_def
      split: option.splits)

lemma CachedFile_Get_opens:
  "\<not> Duration_less (Time_Sub now (CachedFile.lastLoadTime f)) age
   \<Longrightarrow> \<exists>out f' rest. CachedFile_Get f now open parse age = (out, f', OpOpen # rest)"
  by (auto simp: CachedFile_Get_def Let_def split: sum.splits)

lemma CachedDir_Get_opens:
  "\<not> Duration_less (Time_Sub now (CachedDir.lastLoadTime f)) age
   \<Longrightarrow> \<exists>out f' rest. CachedDir_Get f now open age = (out, f', OpOpen # rest)"
  by (auto simp: CachedDir_Get_def Let_def split: sum.splits option.splits)

lemma CachedFile_Get_not_fresh:
  "\<not> Duration_less (Time_Sub now (CachedFile.lastLoadTime f)) age
   \<Longrightarrow> CachedFile_Get f now open parse age =
     (case open () of
        Inl err \<Rightarrow> (Return (content f) (Some err), f, [OpOpen])
      | Inr file \<Rightarrow>
          (case Stat file of
             Inl err \<Rightarrow> (Return (content f) (Some err), f, [OpOpen, OpStat, OpClose])
           | Inr stats \<Rightarrow>
               if \<not> Time_IsZero (CachedFile.lastLoadTime f)
                  \<and> Size stats = CachedFile.lastSize f
                  \<and> ModTime stats = CachedFile.lastModTime f
               then (Return (content f) None, f\<lparr>CachedFile.lastLoadTime := now\<rparr>,
                     [OpOpen, OpStat, OpClose])
               else
                 (case parse file of
                    Inl err \<Rightarrow>
                      (Return (content f) (Some err), f, [OpOpen, OpStat, OpParse, OpClose])
                  | Inr c \<Rightarrow>
                      (Return c None,
                       \<lparr>CachedFile.lastLoadTime = now, lastSize = Size stats,
                        lastModTime = ModTime stats, content = c\<rparr>,
                       [OpOpen, OpStat, OpParse, OpClose]))))"
  by (cases f) (simp add: CachedFile_Get_def Let_def split: sum.splits)

lemma CachedDir_Get_not_fresh:
  "\<not> Duration_less (Time_Sub now (CachedDir.lastLoadTime d)) age
   \<Longrightarrow> CachedDir_Get d now opend age =
     (case opend () of
        Inl err \<Rightarrow> (Return (entries d) (Some err), d, [OpOpen])
      | Inr dirfile \<Rightarrow>
          (case Stat dirfile of
             Inl err \<Rightarrow> (Return (entries d) (Some err), d, [OpOpen, OpStat, OpClose])
           | Inr stats \<Rightarrow>
               if \<not> Time_IsZero (CachedDir.lastLoadTime d)
                  \<and> Size stats = CachedDir.lastSize d
                  \<and> ModTime stats = CachedDir.lastModTime d
               then (Return (entries d) None, d\<lparr>CachedDir.lastLoadTime := now\<rparr>,
                     [OpOpen, OpStat, OpClose])
               else
                 (case ReadDir dirfile of
                    None \<Rightarrow>
                      (Panic ''directory doesn't implement ReadDirFile'', d,
                       [OpOpen, OpStat, OpClose])
                  | Some (Inl err) \<Rightarrow>
                      (Return (entries d) (Some err), d,
                       [OpOpen, OpStat, OpReadDir, OpClose])
                  | Some (Inr es) \<Rightarrow>
                      (Return es None,
                       \<lparr>CachedDir.lastLoadTime = now, lastSize = Size stats,
                        lastModTime = ModTime stats, entries = es\<rparr>,
                       [OpOpen, OpStat, OpReadDir, OpClose]))))"
  by (cases d) (simp add: CachedDir_Get_def Let_def split: sum.splits option.splits)

text \<open>
  C6. With a maximum age that is zero or negative, and an elapsed time
  \<open>now - lastLoadTime\<close> that is not negative, the first test of \<open>Get\<close> is false however
  recently the entry was loaded, and the call is the open and all that follows it: the
  error of a failed open or stat with the old value; on a stat that matches a loaded
  entry, the old value with \<open>lastLoadTime\<close> set to now; otherwise the read or the parse,
  with its error and the old value, or with the new value stored (or, for a directory
  handle that cannot list, the panic). Each of these begins with the open. The concurrent
  wrappers, with both their clock readings not before the load, give exactly what the
  wrapped call gives.
\<close>

theorem C6_no_fast_path_without_max_age:
  "(sint age \<le> 0 \<and> 0 \<le> sint (Time_Sub now (CachedFile.lastLoadTime f))
    \<longrightarrow> \<not> Duration_less (Time_Sub now (CachedFile.lastLoadTime f)) age
      \<and> CachedFile_Get f now open parse age =
        (case open () of
           Inl err \<Rightarrow> (Return (content f) (Some err), f, [OpOpen])
         | Inr file \<Rightarrow>
             (case Stat file of
                Inl err \<Rightarrow> (Return (content f) (Some err), f, [OpOpen, OpStat, OpClose])
              | Inr stats \<Rightarrow>
                  if \<not> Time_IsZero (CachedFile.lastLoadTime f)
                     \<and> Size stats = CachedFile.lastSize f
                     \<and> ModTime stats = CachedFile.lastModTime f
                  then (Return (content f) None, f\<lparr>CachedFile.lastLoadTime := now\<rparr>,
                        [OpOpen, OpStat, OpClose])
                  else
                    (case parse file of
                       Inl err \<Rightarrow>
                         (Return (content f) (Some err), f,
                          [OpOpen, OpStat, OpParse, OpClose])
                     | Inr c \<Rightarrow>
                         (Return c None,
                          \<lparr>CachedFile.lastLoadTime = now, lastSize = Size stats,
                           lastModTime = ModTime stats, content = c\<rparr>,
                          [OpOpen, OpStat, OpParse, OpClose])))))
   \<and> (sint age \<le> 0 \<and> 0 \<le> sint (Time_Sub now (CachedDir.lastLoadTime d))
    \<longrightarrow> \<not> Duration_less (Time_Sub now (CachedDir.lastLoadTime d)) age
      \<and> CachedDir_Get d now opend age =
        (case opend () of
           Inl err \<Rightarrow> (Return (entries d) (Some err), d, [OpOpen])
         | Inr dirfile \<Rightarrow>
             (case Stat dirfile of
                Inl err \<Rightarrow> (Return (entries d) (Some err), d, [OpOpen, OpStat, OpClose])
              | Inr stats \<Rightarrow>
                  if \<not> Time_IsZero (CachedDir.lastLoadTime d)
                     \<and> Size stats = CachedDir.lastSize d
                     \<and> ModTime stats = CachedDir.lastModTime d
                  then (Return (entries d) None, d\<lparr>CachedDir.lastLoadTime := now\<rparr>,
                        [OpOpen, OpStat, OpClose])
                  else
                    (case ReadDir dirfile of
                       None \<Rightarrow>
                         (Panic ''directory doesn't implement ReadDirFile'', d,
                          [OpOpen, OpStat, OpClose])
                     | Some (Inl err) \<Rightarrow>
                         (Return (entries d) (Some err), d,
                          [OpOpen, OpStat, OpReadDir, OpClose])
                     | Some (Inr es) \<Rightarrow>
                         (Return es None,
                          \<lparr>CachedDir.lastLoadTime = now, lastSize = Size stats,
                           lastModTime = ModTime stats, entries = es\<rparr>,
                          [OpOpen, OpStat, OpReadDir, OpClose])))))
   \<and> (sint age \<le> 0 \<and> 0 \<le> sint (Time_Sub now (CachedFile.lastLoadTime f))
    \<longrightarrow> (\<exists>out f' rest. CachedFile_Get f now open parse age = (out, f', OpOpen # rest)))
   \<and> (sint age \<le> 0 \<and> 0 \<le> sint (Time_Sub now (CachedDir.lastLoadTime d))
    \<longrightarrow> (\<exists>out d' rest. CachedDir_Get d now opend age = (out, d', OpOpen # rest)))
   \<and> (sint age \<le> 0
      \<and> 0 \<le> sint (Time_Sub now_since (CachedFile.lastLoadTime (cachedFile cf)))
      \<and> 0 \<le> sint (Time_Sub now (CachedFile.lastLoadTime (cachedFile cf)))
    \<longrightarrow> ConcurrentCachedFile_Get cf now_since now open parse age =
        (fst (CachedFile_Get (cachedFile cf) now open parse age),
         \<lparr>cachedFile = fst (snd (CachedFile_Get (cachedFile cf) now open parse age))\<rparr>,
         snd (snd (CachedFile_Get (cachedFile cf) now open parse age)))
      \<and> (\<exists>rest. snd (snd (ConcurrentCachedFile_Get cf now_since now open parse age))
            = OpOpen # rest))
   \<and> (sint age \<le> 0
      \<and> 0 \<le> sint (Time_Sub now_since (CachedDir.lastLoadTime (cachedDir cd)))
      \<and> 0 \<le> sint (Time_Sub now (CachedDir.lastLoadTime (cachedDir cd)))
    \<longrightarrow> ConcurrentCachedDir_Get cd now_since now opend age =
        (fst (CachedDir_Get (cachedDir cd) now opend age),
         \<lparr>cachedDir = fst (snd (CachedDir_Get (cachedDir cd) now opend age))\<rparr>,
         snd (snd (CachedDir_Get (cachedDir cd) now opend age)))
      \<and> (\<exists>rest. snd (snd (ConcurrentCachedDir_Get cd now_since now opend age))
            = OpOpen # rest))"
proof (intro conjI impI; elim conjE)
  assume a: "sint age \<le> 0" and t: "0 \<le> sint (Time_Sub now (CachedFile.lastLoadTime f))"
  then show n: "\<not> Duration_less (Time_Sub now (CachedFile.lastLoadTime f)) age"
    by (rule not_fresh_nonpositive)
  then show "CachedFile_Get f now open parse age =
        (case open () of
           Inl err \<Rightarrow> (Return (content f) (Some err), f, [OpOpen])
         | Inr file \<Rightarrow>
             (case Stat file of
                Inl err \<Rightarrow> (Return (content f) (Some err), f, [OpOpen, OpStat, OpClose])
              | Inr stats \<Rightarrow>
                  if \<not> Time_IsZero (CachedFile.lastLoadTime f)
                     \<and> Size stats = CachedFile.lastSize f
                     \<and> ModTime stats = CachedFile.lastModTime f
                  then (Return (content f) None, f\<lparr>CachedFile.lastLoadTime := now\<rparr>,
                        [OpOpen, OpStat, OpClose])
                  else
                    (case parse file of
                       Inl err \<Rightarrow>
                         (Return (content f) (Some err), f,
                          [OpOpen, OpStat, OpParse, OpClose])
                     | Inr c \<Rightarrow>
                         (Return c None,
                          \<lparr>CachedFile.lastLoadTime = now, lastSize = Size stats,
                           lastModTime = ModTime stats, content = c\<rparr>,
                          [OpOpen, OpStat, OpParse, OpClose]))))"
    by (rule CachedFile_Get_not_fresh)
  from n show "\<exists>out f' rest. CachedFile_Get f now open parse age = (out, f', OpOpen # rest)"
    by (rule CachedFile_Get_opens)
next
  assume a: "sint age \<le> 0" and t: "0 \<le> sint (Time_Sub now (CachedDir.lastLoadTime d))"
  then show n: "\<not> Duration_less (Time_Sub now (CachedDir.lastLoadTime d)) age"
    by (rule not_fresh_nonpositive)
  then show "CachedDir_Get d now opend age =
        (case opend () of
           Inl err \<Rightarrow> (Return (entries d) (Some err), d, [OpOpen])
         | Inr dirfile \<Rightarrow>
             (case Stat dirfile of
                Inl err \<Rightarrow> (Return (entries d) (Some err), d, [OpOpen, OpStat, OpClose])
              | Inr stats \<Rightarrow>
                  if \<not> Time_IsZero (CachedDir.lastLoadTime d)
                     \<and> Size stats = CachedDir.lastSize d
                     \<and> ModTime stats = CachedDir.lastModTime d
                  then (Return (entries d) None, d\<lparr>CachedDir.lastLoadTime := now\<rparr>,
                        [OpOpen, OpStat, OpClose])
                  else
                    (case ReadDir dirfile of
                       None \<Rightarrow>
                         (Panic ''directory doesn't implement ReadDirFile'', d,
                          [OpOpen, OpStat, OpClose])
                     | Some (Inl err) \<Rightarrow>
                         (Return (entries d) (Some err), d,
                          [OpOpen, OpStat, OpReadDir, OpClose])
                     | Some (Inr es) \<Rightarrow>
                         (Return es None,
                          \<lparr>CachedDir.lastLoadTime = now, lastSize = Size stats,
                           lastModTime = ModTime stats, entries = es\<rparr>,
                          [OpOpen, OpStat, OpReadDir, OpClose]))))"
    by (rule CachedDir_Get_not_fresh)
  from n show "\<exists>out d' rest. CachedDir_Get d now opend age = (out, d', OpOpen # rest)"
    by (rule CachedDir_Get_opens)
next
  assume a: "sint age \<le> 0"
    and s: "0 \<le> sint (Time_Sub now_since (CachedFile.lastLoadTime (cachedFile cf)))"
    and t: "0 \<le> sint (Time_Sub now (CachedFile.lastLoadTime (cachedFile cf)))"
  from a s have 1:
    "\<not> Duration_less (Time_Sub now_since (CachedFile.lastLoadTime (cachedFile cf))) age"
    by (rule not_fresh_nonpositive)
  then show w: "ConcurrentCachedFile_Get cf now_since now open parse age =
        (fst (CachedFile_Get (cachedFile cf) now open parse age),
         \<lparr>cachedFile = fst (snd (CachedFile_Get (cachedFile cf) now open parse age))\<rparr>,
         snd (snd (CachedFile_Get (cachedFile cf) now open parse age)))"
    by (cases cf)
      (simp add: ConcurrentCachedFile_Get_def CachedFile_Cached_def split: prod.splits)
  from a t have "\<not> Duration_less (Time_Sub now (CachedFile.lastLoadTime (cachedFile cf))) age"
    by (rule not_fresh_nonpositive)
  then obtain out f' rest
    where "CachedFile_Get (cachedFile cf) now open parse age = (out, f', OpOpen # rest)"
    using CachedFile_Get_opens by blast
  then show "\<exists>rest. snd (snd (ConcurrentCachedFile_Get cf now_since now open parse age))
      = OpOpen # rest"
    unfolding w by simp
next
  assume a: "sint age \<le> 0"
    and s: "0 \<le> sint (Time_Sub now_since (CachedDir.lastLoadTime (cachedDir cd)))"
    and t: "0 \<le> sint (Time_Sub now (CachedDir.lastLoadTime (cachedDir cd)))"
  from a s have 1:
    "\<not> Duration_less (Time_Sub now_since (CachedDir.lastLoadTime (cachedDir cd))) age"
    by (rule not_fresh_nonpositive)
  then show w: "ConcurrentCachedDir_Get cd now_since now opend age =
        (fst (CachedDir_Get (cachedDir cd) now opend age),
         \<lparr>cachedDir = fst (snd (CachedDir_Get (cachedDir cd) now opend age))\<rparr>,
         snd (snd (CachedDir_Get (cachedDir cd) now opend age)))"
    by (cases cd)
      (simp add: ConcurrentCachedDir_Get_def CachedDir_Cached_def split: prod.splits)
  from a t have "\<not> Duration_less (Time_Sub now (CachedDir.lastLoadTime (cachedDir cd))) age"
    by (rule not_fresh_nonpositive)
  then obtain out f' rest
    where "CachedDir_Get (cachedDir cd) now opend age = (out, f', OpOpen # rest)"
    using CachedDir_Get_opens by blast
  then show "\<exists>rest. snd (snd (ConcurrentCachedDir_Get cd now_since now opend age))
      = OpOpen # rest"
    unfolding w by simp
qed

theorem C6_no_fast_path_without_max_age_witness:
  "sint (- 1000000000 :: Duration) \<le> 0
   \<and> 0 \<le> sint (Time_Sub (ex_now 0) (CachedFile.lastLoadTime ex_file))
   \<and> 0 \<le> sint (Time_Sub (ex_now 0) (CachedDir.lastLoadTime ex_dir))
   \<and> \<not> Duration_less (Time_Sub (ex_now 0) (CachedFile.lastLoadTime ex_file)) (- 1000000000)
   \<and> CachedFile_Get ex_file (ex_now 0) (\<lambda>_. Inr (ex_handle ex_info_changed ''Y'')) ex_parse
        (- 1000000000)
      = (Return ''Y'' None,
         \<lparr>CachedFile.lastLoadTime = ex_now 0, lastSize = 6,
          lastModTime = ex_mtime 1500000000, content = ''Y''\<rparr>,
         [OpOpen, OpStat, OpParse, OpClose])
   \<and> CachedDir_Get ex_dir (ex_now 0) ex_not_exist (- 1000000000)
      = (Return [''a.json'', ''b.json''] (Some ''file does not exist''), ex_dir, [OpOpen])
   \<and> ConcurrentCachedFile_Get \<lparr>cachedFile = ex_file\<rparr> (ex_now 0) (ex_now 0)
        (\<lambda>_. Inr (ex_handle ex_info_changed ''Y'')) ex_parse (- 1000000000)
      = (Return ''Y'' None,
         \<lparr>cachedFile =
            \<lparr>CachedFile.lastLoadTime = ex_now 0, lastSize = 6,
             lastModTime = ex_mtime 1500000000, content = ''Y''\<rparr>\<rparr>,
         [OpOpen, OpStat, OpParse, OpClose])
   \<and> ConcurrentCachedDir_Get \<lparr>cachedDir = ex_dir\<rparr> (ex_now 0) (ex_now 0) ex_not_exist
        (- 1000000000)
      = (Return [''a.json'', ''b.json''] (Some ''file does not exist''),
         \<lparr>cachedDir = ex_dir\<rparr>, [OpOpen])"
  using C6_no_fast_path_without_max_age
    [where age = "- 1000000000" and f = ex_file and now = "ex_now 0"
       and ?open = "\<lambda>_. Inr (ex_handle ex_info_changed ''Y'')"
       and parse = ex_parse and d = ex_dir and opend = ex_not_exist
       and cf = "\<lparr>cachedFile = ex_file\<rparr>" and now_since = "ex_now 0"
       and cd = "\<lparr>cachedDir = ex_dir\<rparr>"]
  by (simp add: eval_defs ex_defs)

text \<open>
  C10. A \<^verbatim>\<open>CachedDir.Get\<close> that gets past the first test, opens and stats successfully,
  is not answered by the stat comparison, and holds a handle that does not implement
  \<^verbatim>\<open>fs.ReadDirFile\<close> (the handle of a regular file, for one) does not return: it panics
  with the message "directory doesn't implement ReadDirFile", after closing the handle.
\<close>

theorem C10_dir_get_panics:
  assumes "\<not> (\<not> Time_IsZero (CachedDir.lastLoadTime d)
              \<and> Duration_less (Time_Sub now (CachedDir.lastLoadTime d)) age)"
    and "opend () = Inr dirfile" and "Stat dirfile = Inr dirstats"
    and "\<not> (\<not> Time_IsZero (CachedDir.lastLoadTime d)
            \<and> Size dirstats = CachedDir.lastSize d
            \<and> ModTime dirstats = CachedDir.lastModTime d)"
    and "ReadDir dirfile = None"
  shows "CachedDir_Get d now opend age
         = (Panic ''directory doesn't implement ReadDirFile'', d, [OpOpen, OpStat, OpClose])"
  using assms by (auto simp: CachedDir_Get_def)

theorem C10_dir_get_panics_witness:
  "\<not> (\<not> Time_IsZero (CachedDir.lastLoadTime (CachedDir_zero :: string CachedDir))
       \<and> Duration_less (Time_Sub (ex_now 0) (CachedDir.lastLoadTime (CachedDir_zero :: string CachedDir)))
           2000000000)
   \<and> Stat (ex_handle ex_info ''X'') = Inr ex_info
   \<and> ReadDir (ex_handle ex_info ''X'') = None
   \<and> CachedDir_Get (CachedDir_zero :: string CachedDir) (ex_now 0)
        (\<lambda>_. Inr (ex_handle ex_info ''X'')) 2000000000
      = (Panic ''directory doesn't implement ReadDirFile'', CachedDir_zero,
         [OpOpen, OpStat, OpClose])"
  using C10_dir_get_panics
    [where d = "CachedDir_zero :: string CachedDir" and now = "ex_now 0" and age = 2000000000
       and opend = "\<lambda>_. Inr (ex_handle ex_info ''X'')"
       and dirfile = "ex_handle ex_info ''X''" and dirstats = ex_info]
  by (simp add: eval_defs ex_defs CachedDir_zero_def)

section \<open>Paths and registries\<close>

declare backtrack.simps [simp del] Clean_loop.simps [simp del]

lemma backtrack_take:
  "dotdot < length out \<Longrightarrow> \<exists>n. dotdot \<le> n \<and> n < length out \<and> backtrack dotdot out = take n out"
proof (induction dotdot out rule: backtrack.induct)
  case (1 dotdot out)
  show ?case
  proof (cases "dotdot < length (butlast out) \<and> \<not> IsPathSeparator (last out)")
    case True
    with "1.IH" obtain n where n: "dotdot \<le> n" "n < length (butlast out)"
      "backtrack dotdot (butlast out) = take n (butlast out)"
      by auto
    from n(2) have "take n (butlast out) = take n out"
      by (simp add: take_butlast)
    with n True show ?thesis
      by (subst backtrack.simps) (auto simp: Let_def intro!: exI [of _ n])
  next
    case False
    with "1.prems" show ?thesis
      by (subst backtrack.simps)
        (auto simp: Let_def butlast_conv_take intro!: exI [of _ "length out - 1"])
  qed
qed

lemma Clean_loop_keeps_prefix:
  "dotdot \<le> length out
   \<Longrightarrow> take dotdot (Clean_loop rooted path out dotdot) = take dotdot out"
proof (induction rooted path out dotdot rule: Clean_loop.induct)
  case (1 rooted out dotdot)
  show ?case by (simp add: Clean_loop.simps)
next
  case (2 rooted c rest out dotdot)
  let ?elem = "takeWhile (\<lambda>x. \<not> IsPathSeparator x) (c # rest)"
  consider (sep) "IsPathSeparator c"
    | (dot) "\<not> IsPathSeparator c" "c = CHR ''.'' \<and> (rest = [] \<or> IsPathSeparator (hd rest))"
    | (dotdot) "\<not> IsPathSeparator c"
        "\<not> (c = CHR ''.'' \<and> (rest = [] \<or> IsPathSeparator (hd rest)))"
        "c = CHR ''.'' \<and> rest \<noteq> [] \<and> hd rest = CHR ''.''
           \<and> (tl rest = [] \<or> IsPathSeparator (hd (tl rest)))"
    | (elem) "\<not> IsPathSeparator c"
        "\<not> (c = CHR ''.'' \<and> (rest = [] \<or> IsPathSeparator (hd rest)))"
        "\<not> (c = CHR ''.'' \<and> rest \<noteq> [] \<and> hd rest = CHR ''.''
           \<and> (tl rest = [] \<or> IsPathSeparator (hd (tl rest))))"
    by blast
  then show ?case
  proof cases
    case sep
    with 2 show ?thesis by (simp add: Clean_loop.simps)
  next
    case dot
    with 2 show ?thesis by (simp add: Clean_loop.simps)
  next
    case dotdot
    show ?thesis
    proof (cases "dotdot < length out")
      case True
      then obtain n where n: "dotdot \<le> n" "n < length out" "backtrack dotdot out = take n out"
        using backtrack_take by blast
      have "take dotdot (Clean_loop rooted (tl rest) (backtrack dotdot out) dotdot)
            = take dotdot (backtrack dotdot out)"
        using "2.IH"(3) dotdot True n by simp
      also have "\<dots> = take dotdot out"
        using n by (simp add: min_def)
      finally show ?thesis
        using dotdot True by (simp add: Clean_loop.simps)
    next
      case False
      show ?thesis
      proof (cases rooted)
        case True
        with 2 dotdot False show ?thesis by (simp add: Clean_loop.simps)
      next
        case nr: False
        define out' where "out' = (if 0 < length out then out @ [PathSeparator] else out) @ ''..''"
        have "take (length out') (Clean_loop rooted (tl rest) out' (length out'))
              = take (length out') out'"
          using "2.IH"(4) dotdot False nr by (simp add: out'_def)
        then have "take dotdot (take (length out') (Clean_loop rooted (tl rest) out' (length out')))
              = take dotdot out'"
          by simp
        moreover have "dotdot \<le> length out'"
          using "2.prems" by (auto simp: out'_def)
        ultimately have "take dotdot (Clean_loop rooted (tl rest) out' (length out'))
              = take dotdot out'"
          by (simp add: min_def)
        moreover have "take dotdot out' = take dotdot out"
          using "2.prems" by (auto simp: out'_def)
        ultimately show ?thesis
          using dotdot False nr by (simp add: Clean_loop.simps Let_def out'_def)
      qed
    qed
  next
    case elem
    define out' where "out' = (if rooted \<and> length out \<noteq> 1 \<or> \<not> rooted \<and> length out \<noteq> 0
                        then out @ [PathSeparator] else out)"
    have "take dotdot (Clean_loop rooted (dropWhile (\<lambda>x. \<not> IsPathSeparator x) (c # rest))
                 (out' @ ?elem) dotdot) = take dotdot (out' @ ?elem)"
      using "2.IH"(6) [OF elem refl] "2.prems" by (simp add: out'_def)
    moreover have "take dotdot (out' @ ?elem) = take dotdot out"
      using "2.prems" by (simp add: out'_def)
    moreover have "Clean_loop rooted (c # rest) out dotdot
          = Clean_loop rooted (dropWhile (\<lambda>x. \<not> IsPathSeparator x) (c # rest))
              (out' @ ?elem) dotdot"
      by (subst Clean_loop.simps) (simp only: elem if_False Let_def out'_def)
    ultimately show ?thesis by simp
  qed
qed

lemma cleanPath_rooted: "\<exists>s. cleanPath p = CHR ''/'' # s"
proof -
  have "take 1 (Clean_loop True p [PathSeparator] 1) = take 1 [PathSeparator]"
    by (rule Clean_loop_keeps_prefix) simp
  then obtain s where "Clean_loop True p [PathSeparator] 1 = PathSeparator # s"
    by (cases "Clean_loop True p [PathSeparator] 1") auto
  then show ?thesis
    by (simp add: cleanPath_def Clean_def IsPathSeparator_def PathSeparator_def)
qed

lemma opener_cleanPath:
  "opener filesystem (cleanPath p)
   = Inr (\<lambda>_. filesystem (if cleanPath p = ''/'' then ''.'' else tl (cleanPath p)))"
  using cleanPath_rooted [of p] by (auto simp: opener_def)

lemma FsCache_GetFileWithMaxAge_result:
  "FsCache_GetFileWithMaxAge cache z now file age =
     (let path = cleanPath file;
          cached = (case FsCache.files cache path of Some c \<Rightarrow> c | None \<Rightarrow> CachedFile_zero z);
          got = CachedFile_Get cached now
                  (\<lambda>_. FsCache.fs cache (if path = ''/'' then ''.'' else tl path))
                  (FsCache.parser cache) age
      in (fst got,
          cache\<lparr>FsCache.files :=
            (case fst got of
               Return c (Some e) \<Rightarrow> (FsCache.files cache)(path := None)
             | _ \<Rightarrow> (FsCache.files cache)(path \<mapsto> fst (snd got)))\<rparr>,
          snd (snd got)))"
proof -
  define path where "path = cleanPath file"
  define opn where "opn = (\<lambda>_ :: unit. FsCache.fs cache (if path = ''/'' then ''.'' else tl path))"
  define cached where
    "cached = (case FsCache.files cache path of Some c \<Rightarrow> c | None \<Rightarrow> CachedFile_zero z)"
  obtain r cached' ops where got: "CachedFile_Get cached now
      opn
      (FsCache.parser cache) age = (r, cached', ops)"
    by (cases "CachedFile_Get cached now
      opn
      (FsCache.parser cache) age") auto
  have op: "opener (FsCache.fs cache) path
      = Inr opn"
    by (simp add: path_def opn_def opener_cleanPath)
  show ?thesis
    unfolding FsCache_GetFileWithMaxAge_def Let_def
      path_def [symmetric] cached_def [symmetric] opn_def [symmetric]
    by (cases r) (simp_all add: got op split: option.splits)
qed

lemma FsCache_GetDirWithMaxAge_result:
  "FsCache_GetDirWithMaxAge cache now dir age =
     (let path = cleanPath dir;
          cached = (case FsCache.dirs cache path of Some c \<Rightarrow> c | None \<Rightarrow> CachedDir_zero);
          got = CachedDir_Get cached now
                  (\<lambda>_. FsCache.fs cache (if path = ''/'' then ''.'' else tl path)) age
      in (fst got,
          cache\<lparr>FsCache.dirs :=
            (case fst got of
               Return c (Some e) \<Rightarrow> (FsCache.dirs cache)(path := None)
             | _ \<Rightarrow> (FsCache.dirs cache)(path \<mapsto> fst (snd got)))\<rparr>,
          snd (snd got)))"
proof -
  define path where "path = cleanPath dir"
  define opn where "opn = (\<lambda>_ :: unit. FsCache.fs cache (if path = ''/'' then ''.'' else tl path))"
  define cached where
    "cached = (case FsCache.dirs cache path of Some c \<Rightarrow> c | None \<Rightarrow> CachedDir_zero)"
  obtain r cached' ops where got: "CachedDir_Get cached now
      opn age
      = (r, cached', ops)"
    by (cases "CachedDir_Get cached now
      opn age") auto
  have op: "opener (FsCache.fs cache) path
      = Inr opn"
    by (simp add: path_def opn_def opener_cleanPath)
  show ?thesis
    unfolding FsCache_GetDirWithMaxAge_def Let_def
      path_def [symmetric] cached_def [symmetric] opn_def [symmetric]
    by (cases r) (simp_all add: got op split: option.splits)
qed

lemma ConcurrentFsCache_getFile_result:
  "ConcurrentFsCache_getFile cache z now_since now_get file age useMaxAge =
     (let path = cleanPath file;
          cached = (case ConcurrentFsCache.files cache path of
                      Some c \<Rightarrow> c | None \<Rightarrow> \<lparr>cachedFile = CachedFile_zero z\<rparr>);
          got = ConcurrentCachedFile_Get cached now_since now_get
                  (\<lambda>_. ConcurrentFsCache.fs cache (if path = ''/'' then ''.'' else tl path))
                  (ConcurrentFsCache.parser cache) (if useMaxAge then age else maxAge cache)
      in (fst got,
          (case fst got of
             Return c None \<Rightarrow>
               cache\<lparr>ConcurrentFsCache.files :=
                       (ConcurrentFsCache.files cache)(path \<mapsto> fst (snd got))\<rparr>
           | _ \<Rightarrow>
               if ConcurrentFsCache.files cache path = None then cache
               else cache\<lparr>ConcurrentFsCache.files :=
                       (ConcurrentFsCache.files cache)(path \<mapsto> fst (snd got))\<rparr>),
          snd (snd got)))"
proof -
  define path where "path = cleanPath file"
  define opn where "opn = (\<lambda>_ :: unit. ConcurrentFsCache.fs cache (if path = ''/'' then ''.'' else tl path))"
  define cached where
    "cached = (case ConcurrentFsCache.files cache path of
                 Some c \<Rightarrow> c | None \<Rightarrow> \<lparr>cachedFile = CachedFile_zero z\<rparr>)"
  define age' where "age' = (if useMaxAge then age else maxAge cache)"
  obtain r cached' ops where got: "ConcurrentCachedFile_Get cached now_since now_get
      opn
      (ConcurrentFsCache.parser cache) age' = (r, cached', ops)"
    by (cases "ConcurrentCachedFile_Get cached now_since now_get
      opn
      (ConcurrentFsCache.parser cache) age'") auto
  have op: "opener (ConcurrentFsCache.fs cache) path
      = Inr opn"
    by (simp add: path_def opn_def opener_cleanPath)
  have a: "(if \<not> useMaxAge then maxAge cache else age) = age'"
    by (simp add: age'_def)
  show ?thesis
    unfolding ConcurrentFsCache_getFile_def Let_def
      path_def [symmetric] cached_def [symmetric] opn_def [symmetric] age'_def [symmetric] a
    by (cases r) (auto simp: got op split: option.splits)
qed

lemma ConcurrentFsCache_getDir_result:
  "ConcurrentFsCache_getDir cache now_since now_get dir age useMaxAge =
     (let path = cleanPath dir;
          cached = (case ConcurrentFsCache.dirs cache path of
                      Some c \<Rightarrow> c | None \<Rightarrow> \<lparr>cachedDir = CachedDir_zero\<rparr>);
          got = ConcurrentCachedDir_Get cached now_since now_get
                  (\<lambda>_. ConcurrentFsCache.fs cache (if path = ''/'' then ''.'' else tl path))
                  (if useMaxAge then age else maxAge cache)
      in (fst got,
          (case fst got of
             Return c None \<Rightarrow>
               cache\<lparr>ConcurrentFsCache.dirs :=
                       (ConcurrentFsCache.dirs cache)(path \<mapsto> fst (snd got))\<rparr>
           | _ \<Rightarrow>
               if ConcurrentFsCache.dirs cache path = None then cache
               else cache\<lparr>ConcurrentFsCache.dirs :=
                       (ConcurrentFsCache.dirs cache)(path \<mapsto> fst (snd got))\<rparr>),
          snd (snd got)))"
proof -
  define path where "path = cleanPath dir"
  define opn where "opn = (\<lambda>_ :: unit. ConcurrentFsCache.fs cache (if path = ''/'' then ''.'' else tl path))"
  define cached where
    "cached = (case ConcurrentFsCache.dirs cache path of
                 Some c \<Rightarrow> c | None \<Rightarrow> \<lparr>cachedDir = CachedDir_zero\<rparr>)"
  define age' where "age' = (if useMaxAge then age else maxAge cache)"
  obtain r cached' ops where got: "ConcurrentCachedDir_Get cached now_since now_get
      opn
      age' = (r, cached', ops)"
    by (cases "ConcurrentCachedDir_Get cached now_since now_get
      opn
      age'") auto
  have op: "opener (ConcurrentFsCache.fs cache) path
      = Inr opn"
    by (simp add: path_def opn_def opener_cleanPath)
  have a: "(if \<not> useMaxAge then maxAge cache else age) = age'"
    by (simp add: age'_def)
  show ?thesis
    unfolding ConcurrentFsCache_getDir_def Let_def
      path_def [symmetric] cached_def [symmetric] opn_def [symmetric] age'_def [symmetric] a
    by (cases r) (auto simp: got op split: option.splits)
qed

lemma FsCache_file_error:
  assumes "fst (FsCache_GetFileWithMaxAge cache z now file age) = Return v (Some e)"
  shows "fst (snd (FsCache_GetFileWithMaxAge cache z now file age))
         = cache\<lparr>FsCache.files := (FsCache.files cache)(cleanPath file := None)\<rparr>"
  using assms by (simp add: FsCache_GetFileWithMaxAge_result Let_def)

lemma FsCache_dir_error:
  assumes "fst (FsCache_GetDirWithMaxAge cache now dir age) = Return v (Some e)"
  shows "fst (snd (FsCache_GetDirWithMaxAge cache now dir age))
         = cache\<lparr>FsCache.dirs := (FsCache.dirs cache)(cleanPath dir := None)\<rparr>"
  using assms by (simp add: FsCache_GetDirWithMaxAge_result Let_def)

lemma FsCache_file_unloaded:
  assumes "FsCache.files cache (cleanPath file) = None"
  shows "fst (FsCache_GetFileWithMaxAge cache z now file age)
         = fst (CachedFile_Get (CachedFile_zero z) now
                 (\<lambda>_. FsCache.fs cache
                        (if cleanPath file = ''/'' then ''.'' else tl (cleanPath file)))
                 (FsCache.parser cache) age)"
  using assms by (simp add: FsCache_GetFileWithMaxAge_result Let_def)

lemma FsCache_dir_unloaded:
  assumes "FsCache.dirs cache (cleanPath dir) = None"
  shows "fst (FsCache_GetDirWithMaxAge cache now dir age)
         = fst (CachedDir_Get CachedDir_zero now
                 (\<lambda>_. FsCache.fs cache
                        (if cleanPath dir = ''/'' then ''.'' else tl (cleanPath dir))) age)"
  using assms by (simp add: FsCache_GetDirWithMaxAge_result Let_def)

lemma ConcurrentFsCache_file_error:
  assumes "fst (ConcurrentFsCache_getFile cache z now_since now_get file age useMaxAge)
           = Return v (Some e)"
  shows "fst (snd (ConcurrentFsCache_getFile cache z now_since now_get file age useMaxAge))
         = cache"
proof (cases "ConcurrentFsCache.files cache (cleanPath file)")
  case None
  with assms show ?thesis
    by (simp add: ConcurrentFsCache_getFile_result Let_def)
next
  case (Some c)
  define opn where "opn = (\<lambda>_ :: unit. ConcurrentFsCache.fs cache
      (if cleanPath file = ''/'' then ''.'' else tl (cleanPath file)))"
  define got where "got = ConcurrentCachedFile_Get c now_since now_get opn
      (ConcurrentFsCache.parser cache) (if useMaxAge then age else maxAge cache)"
  from assms Some have r: "fst got = Return v (Some e)"
    by (simp add: ConcurrentFsCache_getFile_result Let_def got_def opn_def)
  then have "got = (Return v (Some e), fst (snd got), snd (snd got))"
    by (cases got) simp
  then have "fst (snd got) = c"
    unfolding got_def by (rule ConcurrentCachedFile_Get_unchanged)
  with Some r show ?thesis
    by (simp add: ConcurrentFsCache_getFile_result Let_def got_def [symmetric]
        opn_def [symmetric] map_upd_triv)
qed

lemma ConcurrentFsCache_dir_error:
  assumes "fst (ConcurrentFsCache_getDir cache now_since now_get dir age useMaxAge)
           = Return v (Some e)"
  shows "fst (snd (ConcurrentFsCache_getDir cache now_since now_get dir age useMaxAge))
         = cache"
proof (cases "ConcurrentFsCache.dirs cache (cleanPath dir)")
  case None
  with assms show ?thesis
    by (simp add: ConcurrentFsCache_getDir_result Let_def)
next
  case (Some c)
  define opn where "opn = (\<lambda>_ :: unit. ConcurrentFsCache.fs cache
      (if cleanPath dir = ''/'' then ''.'' else tl (cleanPath dir)))"
  define got where "got = ConcurrentCachedDir_Get c now_since now_get opn
      (if useMaxAge then age else maxAge cache)"
  from assms Some have r: "fst got = Return v (Some e)"
    by (simp add: ConcurrentFsCache_getDir_result Let_def got_def opn_def)
  then have "got = (Return v (Some e), fst (snd got), snd (snd got))"
    by (cases got) simp
  then have "fst (snd got) = c"
    unfolding got_def by (rule ConcurrentCachedDir_Get_unchanged)
  with Some r show ?thesis
    by (simp add: ConcurrentFsCache_getDir_result Let_def got_def [symmetric]
        opn_def [symmetric] map_upd_triv)
qed

lemmas path_eval =
  cleanPath_def Clean_def Clean_loop.simps backtrack.simps IsPathSeparator_def
  PathSeparator_def opener_def

lemmas cache_eval =
  FsCache_GetFileWithMaxAge_def FsCache_GetDirWithMaxAge_def FsCache_GetFile_def
  FsCache_GetDir_def FsCache_GetFileEntry_def FsCache_GetDirEntry_def
  ConcurrentFsCache_getFile_def ConcurrentFsCache_getDir_def
  ConcurrentFsCache_GetFile_def ConcurrentFsCache_GetDir_def
  ConcurrentFsCache_GetFileWithMaxAge_def ConcurrentFsCache_GetDirWithMaxAge_def
  ConcurrentFsCache_GetFileEntry_def ConcurrentFsCache_GetDirEntry_def

lemma ex_paths:
  "cleanPath ''a.json'' = ''/a.json''"
  "cleanPath ''/x/../a.json'' = ''/a.json''"
  "cleanPath ''c.json'' = ''/c.json''"
  "cleanPath ''b.json'' = ''/b.json''"
  "cleanPath ''./x/../b.json'' = ''/b.json''"
  "cleanPath ''gone'' = ''/gone''"
  "cleanPath ''./gone/'' = ''/gone''"
  "cleanPath ''/'' = ''/''"
  by (simp_all add: path_eval)

text \<open>
  C7. In the single-threaded \<^verbatim>\<open>FsCache\<close>, a \<open>Get\<close> that returns an error removes the key
  of the path from the registry and changes nothing else: looking the path up afterwards
  finds no entry, and the next \<open>Get\<close> for the path runs on the zero entry. In
  \<^verbatim>\<open>ConcurrentFsCache\<close>, a \<open>Get\<close> that returns an error leaves the whole cache as it
  was: an entry that was registered is still there with the same snapshot, and a path
  that had no entry still has none.
\<close>

theorem C7_eviction_on_error:
  "(fst (FsCache_GetFileWithMaxAge cache z now file age) = Return v (Some e)
    \<longrightarrow> fst (snd (FsCache_GetFileWithMaxAge cache z now file age))
        = cache\<lparr>FsCache.files := (FsCache.files cache)(cleanPath file := None)\<rparr>
      \<and> FsCache_GetFileEntry (fst (snd (FsCache_GetFileWithMaxAge cache z now file age))) file
        = None
      \<and> fst (FsCache_GetFileWithMaxAge
               (fst (snd (FsCache_GetFileWithMaxAge cache z now file age))) z now' file age')
        = fst (CachedFile_Get (CachedFile_zero z) now'
                (\<lambda>_. FsCache.fs cache
                       (if cleanPath file = ''/'' then ''.'' else tl (cleanPath file)))
                (FsCache.parser cache) age'))
   \<and> (fst (FsCache_GetDirWithMaxAge cache now dir age) = Return vd (Some e')
    \<longrightarrow> fst (snd (FsCache_GetDirWithMaxAge cache now dir age))
        = cache\<lparr>FsCache.dirs := (FsCache.dirs cache)(cleanPath dir := None)\<rparr>
      \<and> FsCache_GetDirEntry (fst (snd (FsCache_GetDirWithMaxAge cache now dir age))) dir
        = None
      \<and> fst (FsCache_GetDirWithMaxAge
               (fst (snd (FsCache_GetDirWithMaxAge cache now dir age))) now' dir age')
        = fst (CachedDir_Get CachedDir_zero now'
                (\<lambda>_. FsCache.fs cache
                       (if cleanPath dir = ''/'' then ''.'' else tl (cleanPath dir))) age'))
   \<and> (fst (ConcurrentFsCache_getFile cc z now_since now file age useMaxAge)
        = Return v (Some e)
    \<longrightarrow> fst (snd (ConcurrentFsCache_getFile cc z now_since now file age useMaxAge)) = cc
      \<and> ConcurrentFsCache_GetFileEntry
          (fst (snd (ConcurrentFsCache_getFile cc z now_since now file age useMaxAge))) file
        = ConcurrentFsCache_GetFileEntry cc file)
   \<and> (fst (ConcurrentFsCache_getDir cc now_since now dir age useMaxAge)
        = Return vd (Some e')
    \<longrightarrow> fst (snd (ConcurrentFsCache_getDir cc now_since now dir age useMaxAge)) = cc
      \<and> ConcurrentFsCache_GetDirEntry
          (fst (snd (ConcurrentFsCache_getDir cc now_since now dir age useMaxAge))) dir
        = ConcurrentFsCache_GetDirEntry cc dir)"
proof (intro conjI impI)
  assume a: "fst (FsCache_GetFileWithMaxAge cache z now file age) = Return v (Some e)"
  then show 1: "fst (snd (FsCache_GetFileWithMaxAge cache z now file age))
        = cache\<lparr>FsCache.files := (FsCache.files cache)(cleanPath file := None)\<rparr>"
    by (rule FsCache_file_error)
  then show "FsCache_GetFileEntry
      (fst (snd (FsCache_GetFileWithMaxAge cache z now file age))) file = None"
    by (simp add: FsCache_GetFileEntry_def)
  show "fst (FsCache_GetFileWithMaxAge
               (fst (snd (FsCache_GetFileWithMaxAge cache z now file age))) z now' file age')
        = fst (CachedFile_Get (CachedFile_zero z) now'
                (\<lambda>_. FsCache.fs cache
                       (if cleanPath file = ''/'' then ''.'' else tl (cleanPath file)))
                (FsCache.parser cache) age')"
    unfolding 1 by (subst FsCache_file_unloaded) simp_all
next
  assume a: "fst (FsCache_GetDirWithMaxAge cache now dir age) = Return vd (Some e')"
  then show 1: "fst (snd (FsCache_GetDirWithMaxAge cache now dir age))
        = cache\<lparr>FsCache.dirs := (FsCache.dirs cache)(cleanPath dir := None)\<rparr>"
    by (rule FsCache_dir_error)
  then show "FsCache_GetDirEntry
      (fst (snd (FsCache_GetDirWithMaxAge cache now dir age))) dir = None"
    by (simp add: FsCache_GetDirEntry_def)
  show "fst (FsCache_GetDirWithMaxAge
               (fst (snd (FsCache_GetDirWithMaxAge cache now dir age))) now' dir age')
        = fst (CachedDir_Get CachedDir_zero now'
                (\<lambda>_. FsCache.fs cache
                       (if cleanPath dir = ''/'' then ''.'' else tl (cleanPath dir))) age')"
    unfolding 1 by (subst FsCache_dir_unloaded) simp_all
next
  assume "fst (ConcurrentFsCache_getFile cc z now_since now file age useMaxAge)
        = Return v (Some e)"
  then show 1: "fst (snd (ConcurrentFsCache_getFile cc z now_since now file age useMaxAge))
      = cc"
    by (rule ConcurrentFsCache_file_error)
  then show "ConcurrentFsCache_GetFileEntry
          (fst (snd (ConcurrentFsCache_getFile cc z now_since now file age useMaxAge))) file
        = ConcurrentFsCache_GetFileEntry cc file"
    by simp
next
  assume "fst (ConcurrentFsCache_getDir cc now_since now dir age useMaxAge)
        = Return vd (Some e')"
  then show 1: "fst (snd (ConcurrentFsCache_getDir cc now_since now dir age useMaxAge)) = cc"
    by (rule ConcurrentFsCache_dir_error)
  then show "ConcurrentFsCache_GetDirEntry
          (fst (snd (ConcurrentFsCache_getDir cc now_since now dir age useMaxAge))) dir
        = ConcurrentFsCache_GetDirEntry cc dir"
    by simp
qed

theorem C7_eviction_on_error_witness:
  "fst (FsCache_GetFileWithMaxAge ex_cache ''zero'' (ex_now 3000000000) ''a.json''
          2000000000)
     = Return ''X'' (Some ''file does not exist'')
   \<and> FsCache_GetFileEntry ex_cache ''a.json'' = Some ex_file
   \<and> FsCache_GetFileEntry
        (fst (snd (FsCache_GetFileWithMaxAge ex_cache ''zero'' (ex_now 3000000000)
                     ''a.json'' 2000000000))) ''a.json''
     = None
   \<and> fst (FsCache_GetFileWithMaxAge
            (fst (snd (FsCache_GetFileWithMaxAge ex_cache ''zero'' (ex_now 3000000000)
                         ''a.json'' 2000000000)))
            ''zero'' (ex_now 3000000000) ''a.json'' 2000000000)
     = Return ''zero'' (Some ''file does not exist'')
   \<and> fst (FsCache_GetDirWithMaxAge ex_cache (ex_now 3000000000) ''gone'' 2000000000)
     = Return [''a.json'', ''b.json''] (Some ''file does not exist'')
   \<and> FsCache_GetDirEntry ex_cache ''gone'' = Some ex_dir
   \<and> FsCache_GetDirEntry
        (fst (snd (FsCache_GetDirWithMaxAge ex_cache (ex_now 3000000000) ''gone''
                     2000000000))) ''gone''
     = None
   \<and> fst (FsCache_GetDirWithMaxAge
            (fst (snd (FsCache_GetDirWithMaxAge ex_cache (ex_now 3000000000) ''gone''
                         2000000000)))
            (ex_now 3000000000) ''gone'' 2000000000)
     = Return [] (Some ''file does not exist'')
   \<and> fst (ConcurrentFsCache_getFile ex_concurrent_cache ''zero'' (ex_now 3000000000)
            (ex_now 3000000000) ''a.json'' 2000000000 False)
     = Return ''X'' (Some ''file does not exist'')
   \<and> ConcurrentFsCache_GetFileEntry
        (fst (snd (ConcurrentFsCache_getFile ex_concurrent_cache ''zero''
                     (ex_now 3000000000) (ex_now 3000000000) ''a.json'' 2000000000 False)))
        ''a.json''
     = Some \<lparr>cachedFile = ex_file\<rparr>
   \<and> fst (ConcurrentFsCache_getDir ex_concurrent_cache (ex_now 3000000000)
            (ex_now 3000000000) ''gone'' 2000000000 False)
     = Return [''a.json'', ''b.json''] (Some ''file does not exist'')
   \<and> ConcurrentFsCache_GetDirEntry
        (fst (snd (ConcurrentFsCache_getDir ex_concurrent_cache (ex_now 3000000000)
                     (ex_now 3000000000) ''gone'' 2000000000 False)))
        ''gone''
     = Some \<lparr>cachedDir = ex_dir\<rparr>"
  using C7_eviction_on_error
    [where cache = ex_cache and z = "''zero''" and now = "ex_now 3000000000"
       and ?file = "''a.json''" and age = 2000000000 and v = "''X''"
       and e = "''file does not exist''" and now' = "ex_now 3000000000"
       and age' = 2000000000 and dir = "''gone''" and vd = "[''a.json'', ''b.json'']"
       and e' = "''file does not exist''" and cc = ex_concurrent_cache
       and now_since = "ex_now 3000000000" and useMaxAge = False]
  by (simp add: ex_paths cache_eval opener_def PathSeparator_def Get_defs eval_defs ex_defs
      CachedFile_zero_def CachedDir_zero_def)

lemma CachedFile_Get_no_panic: "fst (CachedFile_Get f now open parse age) \<noteq> Panic msg"
  by (simp add: CachedFile_Get_def Let_def split: sum.splits)

lemma CachedDir_Get_panic:
  "fst (CachedDir_Get f now open age) = Panic msg
   \<Longrightarrow> msg = ''directory doesn't implement ReadDirFile''"
  by (simp add: CachedDir_Get_def Let_def split: sum.splits option.splits if_splits)

lemma ConcurrentCachedFile_Get_no_panic:
  "fst (ConcurrentCachedFile_Get f now_since now_get open parse age) \<noteq> Panic msg"
  using CachedFile_Get_no_panic [of "cachedFile f" now_get "open" parse age msg]
  by (auto simp: ConcurrentCachedFile_Get_def CachedFile_Cached_def split: prod.splits)

lemma ConcurrentCachedDir_Get_panic:
  "fst (ConcurrentCachedDir_Get f now_since now_get open age) = Panic msg
   \<Longrightarrow> msg = ''directory doesn't implement ReadDirFile''"
  using CachedDir_Get_panic [of "cachedDir f" now_get "open" age msg]
  by (auto simp: ConcurrentCachedDir_Get_def CachedDir_Cached_def split: prod.splits if_splits)

text \<open>
  C9. For every string \<open>p\<close>, \<open>cleanPath p\<close> begins with a slash. So \<open>opener\<close> never
  panics on a path that \<open>cleanPath\<close> produced: it returns the function that opens
  \<^verbatim>\<open>.\<close> for the root and the path without its leading slash otherwise. The cache
  operations pass only such paths to \<open>opener\<close>, and none of them ends in the panic
  "path not cleaned correctly" (nor in an index panic on an empty path).
\<close>

theorem C9_cleanPath_rooted_no_panic:
  "(\<exists>s. cleanPath p = CHR ''/'' # s)
   \<and> opener filesystem (cleanPath p)
     = Inr (\<lambda>_. filesystem (if cleanPath p = ''/'' then ''.'' else tl (cleanPath p)))
   \<and> opener filesystem (cleanPath p) \<noteq> Inl ''path not cleaned correctly''
   \<and> opener filesystem (cleanPath p) \<noteq> Inl ''index out of range''
   \<and> fst (FsCache_GetFileWithMaxAge cache z now p age) \<noteq> Panic ''path not cleaned correctly''
   \<and> fst (FsCache_GetDirWithMaxAge cache now p age) \<noteq> Panic ''path not cleaned correctly''
   \<and> fst (ConcurrentFsCache_getFile cc z now_since now p age useMaxAge)
     \<noteq> Panic ''path not cleaned correctly''
   \<and> fst (ConcurrentFsCache_getDir cc now_since now p age useMaxAge)
     \<noteq> Panic ''path not cleaned correctly''"
proof (intro conjI)
  show "\<exists>s. cleanPath p = CHR ''/'' # s"
    by (rule cleanPath_rooted)
  show o: "opener filesystem (cleanPath p)
     = Inr (\<lambda>_. filesystem (if cleanPath p = ''/'' then ''.'' else tl (cleanPath p)))"
    by (rule opener_cleanPath)
  show "opener filesystem (cleanPath p) \<noteq> Inl ''path not cleaned correctly''"
    and "opener filesystem (cleanPath p) \<noteq> Inl ''index out of range''"
    unfolding o by simp_all
  show "fst (FsCache_GetFileWithMaxAge cache z now p age)
      \<noteq> Panic ''path not cleaned correctly''"
    by (simp add: FsCache_GetFileWithMaxAge_result Let_def CachedFile_Get_no_panic)
  show "fst (ConcurrentFsCache_getFile cc z now_since now p age useMaxAge)
      \<noteq> Panic ''path not cleaned correctly''"
    by (simp add: ConcurrentFsCache_getFile_result Let_def ConcurrentCachedFile_Get_no_panic)
  show "fst (FsCache_GetDirWithMaxAge cache now p age) \<noteq> Panic ''path not cleaned correctly''"
  proof
    assume "fst (FsCache_GetDirWithMaxAge cache now p age) = Panic ''path not cleaned correctly''"
    then have "''path not cleaned correctly'' = ''directory doesn't implement ReadDirFile''"
      unfolding FsCache_GetDirWithMaxAge_result Let_def fst_conv
      by (rule CachedDir_Get_panic)
    then show False by simp
  qed
  show "fst (ConcurrentFsCache_getDir cc now_since now p age useMaxAge)
      \<noteq> Panic ''path not cleaned correctly''"
  proof
    assume "fst (ConcurrentFsCache_getDir cc now_since now p age useMaxAge)
        = Panic ''path not cleaned correctly''"
    then have "''path not cleaned correctly'' = ''directory doesn't implement ReadDirFile''"
      unfolding ConcurrentFsCache_getDir_result Let_def fst_conv
      by (rule ConcurrentCachedDir_Get_panic)
    then show False by simp
  qed
qed

theorem C9_cleanPath_rooted_no_panic_witness:
  "cleanPath ''/x/../a.json'' = CHR ''/'' # ''a.json''
   \<and> cleanPath [] = ''/''
   \<and> opener ex_fs (cleanPath ''/x/../a.json'') \<noteq> Inl ''path not cleaned correctly''
   \<and> fst (FsCache_GetDirWithMaxAge ex_cache (ex_now 0) ''/x/../a.json'' 2000000000)
     \<noteq> Panic ''path not cleaned correctly''"
  using C9_cleanPath_rooted_no_panic
    [where p = "''/x/../a.json''" and filesystem = ex_fs and cache = ex_cache and now = "ex_now 0"
       and age = 2000000000 and z = "''zero''" and cc = ex_concurrent_cache
       and now_since = "ex_now 0" and useMaxAge = True]
  by (simp add: ex_paths) (simp add: path_eval)

















text \<open>
  The same for a directory: the root read under the spelling \<^verbatim>\<open>.\<close> is registered at the
  key \<^verbatim>\<open>/\<close>, where the empty spelling finds it, and the entry of another key stays.
\<close>

lemma registry_dir_example:
  "cleanPath ''.'' = ''/'' \<and> cleanPath [] = ''/''
   \<and> FsCache_GetDirEntry ex_cache ''.'' = None
   \<and> fst (FsCache_GetDir ex_cache (ex_now 3000000000) ''.'') = Return [''b.json''] None
   \<and> snd (snd (FsCache_GetDir ex_cache (ex_now 3000000000) ''.''))
     = [OpOpen, OpStat, OpReadDir, OpClose]
   \<and> FsCache_GetDirEntry (fst (snd (FsCache_GetDir ex_cache (ex_now 3000000000) ''.''))) []
     = Some \<lparr>CachedDir.lastLoadTime = ex_now 3000000000, lastSize = 4096,
             lastModTime = ex_mtime 0, entries = [''b.json'']\<rparr>
   \<and> FsCache_GetDirEntry (fst (snd (FsCache_GetDir ex_cache (ex_now 3000000000) ''.'')))
        ''gone''
     = Some ex_dir
   \<and> ConcurrentFsCache_GetDirEntry
        (fst (snd (ConcurrentFsCache_GetDir ex_concurrent_cache (ex_now 3000000000)
                     (ex_now 3000000000) ''.''))) []
     = Some \<lparr>cachedDir =
             \<lparr>CachedDir.lastLoadTime = ex_now 3000000000, lastSize = 4096,
              lastModTime = ex_mtime 0, entries = [''b.json'']\<rparr>\<rparr>"
  by (simp add: path_eval)
    (simp add: path_eval cache_eval Get_defs eval_defs ex_defs CachedDir_zero_def)

lemma FsCache_GetFileWithMaxAge_fresh:
  assumes "FsCache.files c (cleanPath p) = Some e"
    and "Duration_less (Time_Sub now (CachedFile.lastLoadTime e)) age"
  shows "FsCache_GetFileWithMaxAge c z now p age = (Return (content e) None, c, [])"
  using assms
  by (simp add: FsCache_GetFileWithMaxAge_result Let_def CachedFile_Get_fresh map_upd_triv)

lemma FsCache_GetDirWithMaxAge_fresh:
  assumes "FsCache.dirs c (cleanPath p) = Some e"
    and "\<not> Time_IsZero (CachedDir.lastLoadTime e)"
    and "Duration_less (Time_Sub now (CachedDir.lastLoadTime e)) age"
  shows "FsCache_GetDirWithMaxAge c now p age = (Return (entries e) None, c, [])"
  using assms
  by (simp add: FsCache_GetDirWithMaxAge_result Let_def CachedDir_Get_fresh map_upd_triv)

lemma ConcurrentFsCache_getFile_fresh:
  assumes "ConcurrentFsCache.files c (cleanPath p) = Some e"
    and "\<not> Time_IsZero (CachedFile.lastLoadTime (cachedFile e))"
    and "Duration_less (Time_Sub now_since (CachedFile.lastLoadTime (cachedFile e))) age
         \<or> Duration_less (Time_Sub now_get (CachedFile.lastLoadTime (cachedFile e))) age"
  shows "ConcurrentFsCache_getFile c z now_since now_get p age True
         = (Return (content (cachedFile e)) None, c, [])"
  using assms(1)
  by (simp add: ConcurrentFsCache_getFile_result Let_def map_upd_triv
      ConcurrentCachedFile_Get_fresh [OF assms(2,3)])

lemma ConcurrentFsCache_getDir_fresh:
  assumes "ConcurrentFsCache.dirs c (cleanPath p) = Some e"
    and "\<not> Time_IsZero (CachedDir.lastLoadTime (cachedDir e))"
    and "Duration_less (Time_Sub now_since (CachedDir.lastLoadTime (cachedDir e))) age
         \<or> Duration_less (Time_Sub now_get (CachedDir.lastLoadTime (cachedDir e))) age"
  shows "ConcurrentFsCache_getDir c now_since now_get p age True
         = (Return (entries (cachedDir e)) None, c, [])"
  using assms(1)
  by (simp add: ConcurrentFsCache_getDir_result Let_def map_upd_triv
      ConcurrentCachedDir_Get_fresh [OF assms(2,3)])

text \<open>
  C1. An entry that was loaded (its \<open>lastLoadTime\<close> is not the zero Time) and whose age
  \<open>now - lastLoadTime\<close> is strictly below the maximum age \<open>age\<close> answers \<open>Get\<close> with the
  cached value and a nil error, stays as it is, and makes no filesystem operation: the
  list of operations is empty, whatever \<open>open\<close> and \<open>parse\<close> would have answered. This
  holds for \<^verbatim>\<open>CachedFile.Get\<close>, \<^verbatim>\<open>CachedDir.Get\<close> and both concurrent wrappers (there,
  for either of the two clock readings of the call). It holds as well for a read through
  either cache of a path whose registered entry is loaded and that young: the cache
  returns the cached value, is unchanged and touches no file.
\<close>

theorem C1_ttl_fast_path:
  "(\<not> Time_IsZero (CachedFile.lastLoadTime f)
      \<and> Duration_less (Time_Sub now (CachedFile.lastLoadTime f)) age
    \<longrightarrow> CachedFile_Get f now open parse age = (Return (content f) None, f, []))
   \<and> (\<not> Time_IsZero (CachedDir.lastLoadTime d)
      \<and> Duration_less (Time_Sub now (CachedDir.lastLoadTime d)) age
    \<longrightarrow> CachedDir_Get d now opend age = (Return (entries d) None, d, []))
   \<and> (\<not> Time_IsZero (CachedFile.lastLoadTime (cachedFile cf))
      \<and> (Duration_less (Time_Sub now_since (CachedFile.lastLoadTime (cachedFile cf))) age
         \<or> Duration_less (Time_Sub now (CachedFile.lastLoadTime (cachedFile cf))) age)
    \<longrightarrow> ConcurrentCachedFile_Get cf now_since now open parse age
        = (Return (content (cachedFile cf)) None, cf, []))
   \<and> (\<not> Time_IsZero (CachedDir.lastLoadTime (cachedDir cd))
      \<and> (Duration_less (Time_Sub now_since (CachedDir.lastLoadTime (cachedDir cd))) age
         \<or> Duration_less (Time_Sub now (CachedDir.lastLoadTime (cachedDir cd))) age)
    \<longrightarrow> ConcurrentCachedDir_Get cd now_since now opend age
        = (Return (entries (cachedDir cd)) None, cd, []))
   \<and> (FsCache_GetFileEntry c p = Some f
      \<and> \<not> Time_IsZero (CachedFile.lastLoadTime f)
      \<and> Duration_less (Time_Sub now (CachedFile.lastLoadTime f)) age
    \<longrightarrow> FsCache_GetFileWithMaxAge c z now p age = (Return (content f) None, c, []))
   \<and> (FsCache_GetDirEntry c p = Some d
      \<and> \<not> Time_IsZero (CachedDir.lastLoadTime d)
      \<and> Duration_less (Time_Sub now (CachedDir.lastLoadTime d)) age
    \<longrightarrow> FsCache_GetDirWithMaxAge c now p age = (Return (entries d) None, c, []))
   \<and> (ConcurrentFsCache_GetFileEntry cc p = Some cf
      \<and> \<not> Time_IsZero (CachedFile.lastLoadTime (cachedFile cf))
      \<and> (Duration_less (Time_Sub now_since (CachedFile.lastLoadTime (cachedFile cf))) age
         \<or> Duration_less (Time_Sub now (CachedFile.lastLoadTime (cachedFile cf))) age)
    \<longrightarrow> ConcurrentFsCache_GetFileWithMaxAge cc z now_since now p age
        = (Return (content (cachedFile cf)) None, cc, []))
   \<and> (ConcurrentFsCache_GetDirEntry cc p = Some cd
      \<and> \<not> Time_IsZero (CachedDir.lastLoadTime (cachedDir cd))
      \<and> (Duration_less (Time_Sub now_since (CachedDir.lastLoadTime (cachedDir cd))) age
         \<or> Duration_less (Time_Sub now (CachedDir.lastLoadTime (cachedDir cd))) age)
    \<longrightarrow> ConcurrentFsCache_GetDirWithMaxAge cc now_since now p age
        = (Return (entries (cachedDir cd)) None, cc, []))"
  using CachedFile_Get_fresh [of now f age "open" parse]
    CachedDir_Get_fresh [of d now age opend]
    ConcurrentCachedFile_Get_fresh [of cf now_since age now "open" parse]
    ConcurrentCachedDir_Get_fresh [of cd now_since age now opend]
    FsCache_GetFileWithMaxAge_fresh [of c p f now age z]
    FsCache_GetDirWithMaxAge_fresh [of c p d now age]
    ConcurrentFsCache_getFile_fresh [of cc p cf now_since age now z]
    ConcurrentFsCache_getDir_fresh [of cc p cd now_since age now]
  unfolding FsCache_GetFileEntry_def FsCache_GetDirEntry_def
    ConcurrentFsCache_GetFileEntry_def ConcurrentFsCache_GetDirEntry_def
    ConcurrentFsCache_GetFileWithMaxAge_def ConcurrentFsCache_GetDirWithMaxAge_def
  by blast

theorem C1_ttl_fast_path_witness:
  "(\<not> Time_IsZero (CachedFile.lastLoadTime ex_file)
      \<and> Duration_less (Time_Sub (ex_now 1000000000) (CachedFile.lastLoadTime ex_file)) 2000000000
      \<and> CachedFile_Get ex_file (ex_now 1000000000) ex_not_exist ex_parse 2000000000
         = (Return ''X'' None, ex_file, []))
   \<and> CachedDir_Get ex_dir (ex_now 1000000000) ex_not_exist 2000000000
      = (Return [''a.json'', ''b.json''] None, ex_dir, [])
   \<and> ConcurrentCachedFile_Get \<lparr>cachedFile = ex_file\<rparr> (ex_now 999999900)
        (ex_now 1000000000) ex_not_exist ex_parse 2000000000
      = (Return ''X'' None, \<lparr>cachedFile = ex_file\<rparr>, [])
   \<and> ConcurrentCachedDir_Get \<lparr>cachedDir = ex_dir\<rparr> (ex_now 999999900)
        (ex_now 1000000000) ex_not_exist 2000000000
      = (Return [''a.json'', ''b.json''] None, \<lparr>cachedDir = ex_dir\<rparr>, [])
   \<and> FsCache_GetFileEntry ex_cache ''a.json'' = Some ex_file
   \<and> FsCache_GetFileWithMaxAge ex_cache ''zero'' (ex_now 1000000000) ''a.json'' 2000000000
      = (Return ''X'' None, ex_cache, [])
   \<and> ConcurrentFsCache_GetFileEntry ex_concurrent_cache ''a.json''
      = Some \<lparr>cachedFile = ex_file\<rparr>
   \<and> ConcurrentFsCache_GetFileWithMaxAge ex_concurrent_cache ''zero''
        (ex_now 999999900) (ex_now 1000000000) ''a.json'' 2000000000
      = (Return ''X'' None, ex_concurrent_cache, [])"
  using C1_ttl_fast_path
    [where f = ex_file and now = "ex_now 1000000000" and age = 2000000000
       and ?open = ex_not_exist and parse = ex_parse and d = ex_dir and opend = ex_not_exist
       and cf = "\<lparr>cachedFile = ex_file\<rparr>" and now_since = "ex_now 999999900"
       and cd = "\<lparr>cachedDir = ex_dir\<rparr>" and c = ex_cache and p = "''a.json''"
       and z = "''zero''" and cc = ex_concurrent_cache]
  by (simp add: eval_defs ex_defs ex_paths FsCache_GetFileEntry_def
      ConcurrentFsCache_GetFileEntry_def FsCache_GetDirEntry_def
      ConcurrentFsCache_GetDirEntry_def)

text \<open>
  The first test of \<^verbatim>\<open>CachedFile.Get\<close> does not ask whether the entry was loaded. An
  entry that was never loaded is answered from the cache, with the zero value and a nil
  error, when the wall clock is within the maximum age of the zero Time; with a clock of
  this era the saturated difference is the greatest Duration and the test fails.
\<close>

lemma CachedFile_Get_unloaded_near_zero_time:
  "CachedFile_Get (CachedFile_zero ''zero'')
     \<lparr>instant = 1000000000, mono = Some 1000000000, loc = 1\<rparr> ex_not_exist ex_parse
     2000000000
   = (Return ''zero'' None, CachedFile_zero ''zero'', [])"
  by (simp add: CachedFile_Get_def CachedFile_zero_def eval_defs)

lemma CachedFile_Get_unloaded_this_era:
  "maxDuration \<le> instant now
   \<Longrightarrow> \<not> Duration_less (Time_Sub now (CachedFile.lastLoadTime (CachedFile_zero z))) age"
proof -
  assume a: "maxDuration \<le> instant now"
  have "sint age \<le> maxDuration"
    using sint_lt [of age] by (simp add: maxDuration_def)
  with a show ?thesis
    by (simp add: CachedFile_zero_def Time_zero_def Duration_less_def Time_Sub_def
        sint_Duration_saturate minDuration_def maxDuration_def split: option.splits)
qed

text \<open>
  The stat comparison is \<^verbatim>\<open>==\<close> on the Time structs. A stat that answers the instant of
  the last load in another Location is no match: the file is parsed again.
\<close>

lemma CachedFile_Get_same_instant_other_Location:
  "instant (ModTime ex_info_utc) = instant (CachedFile.lastModTime ex_file)
   \<and> Size ex_info_utc = CachedFile.lastSize ex_file
   \<and> CachedFile_Get ex_file (ex_now 3000000000) (\<lambda>_. Inr (ex_handle ex_info_utc ''Y''))
        ex_parse 2000000000
     = (Return ''Y'' None,
        \<lparr>CachedFile.lastLoadTime = ex_now 3000000000, lastSize = 5,
         lastModTime = \<lparr>instant = 63800000000000000000, mono = None, loc = 0\<rparr>,
         content = ''Y''\<rparr>,
        [OpOpen, OpStat, OpParse, OpClose])"
  by (simp add: CachedFile_Get_def eval_defs ex_defs)

end
